theory Spec2Isabelle
  imports Main "HOL-Library.AList" "HOL-Library.Multiset" "HOL-Library.Word"
begin

section \<open>Moderated sessions: policy evaluator, tracker list and live session\<close>

text \<open>
  A shallow embedding of three Go files of the repository:
  \<^item> \<^verbatim>\<open>lib/auth/session_access.go\<close>: the policy evaluator
    (\<^verbatim>\<open>SessionAccessEvaluator\<close>, \<^verbatim>\<open>FulfilledFor\<close>, \<^verbatim>\<open>CanJoin\<close>);
  \<^item> the session tracker service (package \<^verbatim>\<open>local\<close>): \<^verbatim>\<open>removeSessionFromList\<close>
    and \<^verbatim>\<open>RemoveSessionTracker\<close>;
  \<^item> the Kubernetes session (package \<^verbatim>\<open>proxy\<close>): \<^verbatim>\<open>join\<close>, \<^verbatim>\<open>leave\<close>,
    \<^verbatim>\<open>canStart\<close>, \<^verbatim>\<open>launch\<close> and \<^verbatim>\<open>Close\<close>.

  Go's \<^verbatim>\<open>(value, error)\<close> results are sums \<open>error + value\<close> with \<open>Inl\<close> the error; a function
  that returns only an error returns \<open>error option\<close>. Loops are recursive functions over
  the slice they range over, with the same early returns.
\<close>

subsection \<open>Errors and the types of package \<^verbatim>\<open>types\<close>\<close>

text \<open>
  The error kinds of the \<^verbatim>\<open>trace\<close> package that the code builds or tests for; the message
  text is left out. \<open>OtherError\<close> stands for an error of no \<^verbatim>\<open>trace\<close> kind (a JSON or
  I/O error passed through \<^verbatim>\<open>trace.Wrap\<close>).
\<close>

datatype error = NotFound | BadParameter | AccessDenied | CompareFailed | OtherError

text \<open>
  Modelled from the spec: the named constants of \<^verbatim>\<open>api/types\<close>, which is not among the
  sources. \<^verbatim>\<open>types.SessionKind\<close>, the role version, the on-leave action and the participant
  mode are string types in Go; the constants are given the strings of the role file format
  (the kind that the specification calls kubernetes is written \<^verbatim>\<open>k8s\<close> there). The
  properties below only use that the constants of one type differ from each other.
\<close>

type_synonym SessionKind = string

definition SSHSessionKind :: SessionKind where
  "SSHSessionKind = ''ssh''"

definition KubernetesSessionKind :: SessionKind where
  "KubernetesSessionKind = ''k8s''"

definition V1 :: string where "V1 = ''v1''"
definition V2 :: string where "V2 = ''v2''"
definition V3 :: string where "V3 = ''v3''"
definition V4 :: string where "V4 = ''v4''"
definition V5 :: string where "V5 = ''v5''"

definition OnSessionLeaveTerminate :: string where
  "OnSessionLeaveTerminate = ''terminate''"

definition OnSessionLeavePause :: string where
  "OnSessionLeavePause = ''pause''"

type_synonym SessionParticipantMode = string

definition SessionPeerMode :: SessionParticipantMode where
  "SessionPeerMode = ''peer''"

definition SessionObserverMode :: SessionParticipantMode where
  "SessionObserverMode = ''observer''"

definition SessionModeratorMode :: SessionParticipantMode where
  "SessionModeratorMode = ''moderator''"

text \<open>
  \<^verbatim>\<open>types.SessionRequirePolicy\<close> and \<^verbatim>\<open>types.SessionJoinPolicy\<close>. Both Go structs have a
  field \<^verbatim>\<open>Kinds\<close>, and the join policy a field \<^verbatim>\<open>Roles\<close> that the participant context has
  too, so the fields of the two policies carry the prefix \<open>Require\<close> or \<open>Join\<close> where the
  names would clash. \<^verbatim>\<open>Count\<close> is an \<^verbatim>\<open>int32\<close> in Go: a word of 32 bits that is read as a
  signed number (\<open>sint\<close>) and on which \<^verbatim>\<open>left--\<close> wraps around, from the least value
  \<^verbatim>\<open>math.MinInt32\<close> to the greatest.
\<close>

record SessionRequirePolicy =
  Filter :: string
  RequireKinds :: "string list"
  Count :: "32 word"
  OnLeave :: string

definition MinInt32 :: "32 word" where
  "MinInt32 = - 2147483648"

record SessionJoinPolicy =
  JoinRoles :: "string list"
  JoinKinds :: "string list"
  JoinModes :: "string list"

text \<open>
  \<^verbatim>\<open>types.Role\<close> is an interface; the evaluator calls four of its getters, which are the
  fields of the record.
\<close>

record Role =
  GetName :: string
  GetVersion :: string
  GetSessionRequirePolicies :: "SessionRequirePolicy list"
  GetSessionJoinPolicies :: "SessionJoinPolicy list"

subsection \<open>The policy evaluator (\<^verbatim>\<open>lib/auth/session_access.go\<close>)\<close>

record SessionAccessEvaluator =
  kind :: SessionKind
  requires :: "SessionRequirePolicy list"
  roles :: "Role list"

text \<open>The loop of \<^verbatim>\<open>getRequirePolicies\<close>: a role without policies is skipped.\<close>

fun getRequirePolicies :: "Role list \<Rightarrow> SessionRequirePolicy list" where
  "getRequirePolicies [] = []"
| "getRequirePolicies (role # participant) =
     (if length (GetSessionRequirePolicies role) = 0 then getRequirePolicies participant
      else GetSessionRequirePolicies role @ getRequirePolicies participant)"

definition NewSessionAccessEvaluator :: "Role list \<Rightarrow> SessionKind \<Rightarrow> SessionAccessEvaluator" where
  "NewSessionAccessEvaluator rs k =
     \<lparr>kind = k, requires = getRequirePolicies rs, roles = rs\<rparr>"

record SessionAccessContext =
  Username :: string
  Roles :: "Role list"

fun getAllowPolicies_loop :: "Role list \<Rightarrow> SessionJoinPolicy list" where
  "getAllowPolicies_loop [] = []"
| "getAllowPolicies_loop (role # rest) = GetSessionJoinPolicies role @ getAllowPolicies_loop rest"

definition getAllowPolicies :: "SessionAccessContext \<Rightarrow> SessionJoinPolicy list" where
  "getAllowPolicies participant = getAllowPolicies_loop (Roles participant)"

fun contains :: "string list \<Rightarrow> SessionKind \<Rightarrow> bool" where
  "contains [] e = False"
| "contains (a # s) e = (if a = e then True else contains s e)"

text \<open>
  \<^verbatim>\<open>GetIdentifier\<close> resolves \<^verbatim>\<open>participant.name\<close> and \<^verbatim>\<open>participant.roles\<close> for the
  predicate library. Its result is an \<^verbatim>\<open>interface{}\<close> holding a string or a string slice.
  \<^verbatim>\<open>fields[0]\<close> on an empty slice panics in Go; the model returns \<open>BadParameter\<close> there.
\<close>

datatype ident_value = IdString string | IdStrings "string list"

fun GetIdentifier :: "SessionAccessContext \<Rightarrow> string list \<Rightarrow> error + ident_value" where
  "GetIdentifier ctx [] = Inl BadParameter"
| "GetIdentifier ctx (f0 # rest) =
     (if f0 = ''participant'' then
        (if length (f0 # rest) = 2 \<or> length (f0 # rest) = 3 then
           (if (f0 # rest) ! 1 = ''name'' then Inr (IdString (Username ctx))
            else if (f0 # rest) ! 1 = ''roles'' then Inr (IdStrings (map GetName (Roles ctx)))
            else Inl NotFound)
         else Inl NotFound)
      else Inl NotFound)"

text \<open>
  The filter of a require policy is parsed and evaluated by \<^verbatim>\<open>services.NewWhereParser\<close> and
  the \<^verbatim>\<open>predicate\<close> library, which are not among the sources. They are a parameter of the
  model: a \<open>whereParser\<close> takes the identifier resolver of the participant and the filter
  text and returns the boolean the predicate evaluates to, or the error of
  \<^verbatim>\<open>NewWhereParser\<close>, of \<^verbatim>\<open>Parse\<close> or of the failed type assertion.
\<close>

type_synonym whereParser = "(string list \<Rightarrow> error + ident_value) \<Rightarrow> string \<Rightarrow> error + bool"

definition matchesKind :: "SessionAccessEvaluator \<Rightarrow> string list \<Rightarrow> bool" where
  "matchesKind e allow = (if contains allow (kind e) \<or> contains allow ''*'' then True else False)"

definition matchesPredicate ::
  "whereParser \<Rightarrow> SessionAccessEvaluator \<Rightarrow> SessionAccessContext \<Rightarrow>
   SessionRequirePolicy \<Rightarrow> SessionJoinPolicy \<Rightarrow> error + bool" where
  "matchesPredicate parser e ctx require allow =
     (if \<not> matchesKind e (RequireKinds require) \<or> \<not> matchesKind e (JoinKinds allow)
      then Inr False
      else parser (GetIdentifier ctx) (Filter require))"

text \<open>
  Modelled from the spec: \<^verbatim>\<open>utils.GlobToRegexp\<close> followed by \<^verbatim>\<open>regexp.MatchString\<close>, neither of
  which is among the sources. \<open>globMatch pattern subject\<close> follows section 4.B-glob of the
  specification: \<^verbatim>\<open>*\<close> matches any run of characters (also the empty one), \<^verbatim>\<open>?\<close> any
  single character, every other character itself, and the whole subject must be matched.
  Every pattern is well formed, so the error that \<^verbatim>\<open>matchesJoin\<close> discards never arises.
\<close>

fun globMatch :: "string \<Rightarrow> string \<Rightarrow> bool" where
  "globMatch [] s = (s = [])"
| "globMatch (p # ps) [] = (if p = CHR ''*'' then globMatch ps [] else False)"
| "globMatch (p # ps) (c # s) =
     (if p = CHR ''*'' then (globMatch ps (c # s) \<or> globMatch (p # ps) s)
      else if p = CHR ''?'' \<or> p = c then globMatch ps s
      else False)"

text \<open>
  \<^verbatim>\<open>matchesJoin\<close>: the outer loop ranges over the host roles of the evaluator, the inner loop
  over the roles of the join policy. The expression handed to the matcher is built from
  the name of the host role, and the string it is matched against is the entry of the
  join policy.
\<close>

fun matchesJoin_inner :: "Role \<Rightarrow> string list \<Rightarrow> bool" where
  "matchesJoin_inner requireRole [] = False"
| "matchesJoin_inner requireRole (allowRole # rest) =
     (if globMatch (GetName requireRole) allowRole then True
      else matchesJoin_inner requireRole rest)"

fun matchesJoin_outer :: "Role list \<Rightarrow> string list \<Rightarrow> bool" where
  "matchesJoin_outer [] allowRoles = False"
| "matchesJoin_outer (requireRole # rest) allowRoles =
     (if matchesJoin_inner requireRole allowRoles then True
      else matchesJoin_outer rest allowRoles)"

definition matchesJoin :: "SessionAccessEvaluator \<Rightarrow> SessionJoinPolicy \<Rightarrow> bool" where
  "matchesJoin e allow =
     (if matchesKind e (JoinKinds allow) then matchesJoin_outer (roles e) (JoinRoles allow)
      else False)"

text \<open>
  \<^verbatim>\<open>supportsSessionAccessControls\<close>: every branch of the switch inside the loop returns, so
  the loop decides on the first host role.
\<close>

fun supportsSessionAccessControls_loop :: "Role list \<Rightarrow> error + bool" where
  "supportsSessionAccessControls_loop [] = Inr False"
| "supportsSessionAccessControls_loop (role # rest) =
     (if GetVersion role = V1 \<or> GetVersion role = V2 \<or> GetVersion role = V3 \<or> GetVersion role = V4
      then Inr False
      else if GetVersion role = V5 then Inr True
      else Inl BadParameter)"

definition supportsSessionAccessControls :: "SessionAccessEvaluator \<Rightarrow> error + bool" where
  "supportsSessionAccessControls e =
     (if kind e = SSHSessionKind then supportsSessionAccessControls_loop (roles e)
      else Inr False)"

definition preAccessControlsModes :: "SessionKind \<Rightarrow> SessionParticipantMode list" where
  "preAccessControlsModes k = (if k = SSHSessionKind then [SessionPeerMode] else [])"

fun SliceContainsMode :: "SessionParticipantMode list \<Rightarrow> SessionParticipantMode \<Rightarrow> bool" where
  "SliceContainsMode [] e = False"
| "SliceContainsMode (a # s) e = (if a = e then True else SliceContainsMode s e)"

text \<open>\<^verbatim>\<open>CanJoin\<close>: the modes of every matching join policy, first seen first, no duplicates.\<close>

fun CanJoin_modes ::
  "SessionParticipantMode list \<Rightarrow> string list \<Rightarrow> SessionParticipantMode list" where
  "CanJoin_modes modes [] = modes"
| "CanJoin_modes modes (modeString # rest) =
     (if \<not> SliceContainsMode modes modeString then CanJoin_modes (modes @ [modeString]) rest
      else CanJoin_modes modes rest)"

fun CanJoin_loop ::
  "SessionAccessEvaluator \<Rightarrow> SessionParticipantMode list \<Rightarrow> SessionJoinPolicy list \<Rightarrow>
   SessionParticipantMode list" where
  "CanJoin_loop e modes [] = modes"
| "CanJoin_loop e modes (allowPolicy # rest) =
     (if matchesJoin e allowPolicy
      then CanJoin_loop e (CanJoin_modes modes (JoinModes allowPolicy)) rest
      else CanJoin_loop e modes rest)"

definition CanJoin ::
  "SessionAccessEvaluator \<Rightarrow> SessionAccessContext \<Rightarrow> error + SessionParticipantMode list" where
  "CanJoin e user =
     (case supportsSessionAccessControls e of
        Inl err \<Rightarrow> Inl err
      | Inr supported \<Rightarrow>
          if \<not> supported then Inr (preAccessControlsModes (kind e))
          else Inr (CanJoin_loop e [] (getAllowPolicies user)))"

record PolicyOptions =
  TerminateOnLeave :: bool

text \<open>
  \<^verbatim>\<open>FulfilledFor\<close> is three nested loops. \<open>FulfilledFor_allow\<close> is the innermost one, over the
  allow policies of one participant: it answers whether the participant is counted
  (\<^verbatim>\<open>left--; break\<close>) and stops at the first error of \<^verbatim>\<open>matchesPredicate\<close>.
\<close>

fun FulfilledFor_allow ::
  "whereParser \<Rightarrow> SessionAccessEvaluator \<Rightarrow> SessionAccessContext \<Rightarrow> SessionRequirePolicy \<Rightarrow>
   SessionJoinPolicy list \<Rightarrow> error + bool" where
  "FulfilledFor_allow parser e participant requirePolicy [] = Inr False"
| "FulfilledFor_allow parser e participant requirePolicy (allowPolicy # rest) =
     (case matchesPredicate parser e participant requirePolicy allowPolicy of
        Inl err \<Rightarrow> Inl err
      | Inr matches \<Rightarrow>
          if matches \<and> matchesJoin e allowPolicy then Inr True
          else FulfilledFor_allow parser e participant requirePolicy rest)"

text \<open>The switch on \<^verbatim>\<open>requirePolicy.OnLeave\<close> once \<^verbatim>\<open>left <= 0\<close>.\<close>

definition FulfilledFor_options :: "SessionRequirePolicy \<Rightarrow> error + PolicyOptions" where
  "FulfilledFor_options requirePolicy =
     (if OnLeave requirePolicy = OnSessionLeaveTerminate then Inr \<lparr>TerminateOnLeave = True\<rparr>
      else if OnLeave requirePolicy = OnSessionLeavePause then Inr \<lparr>TerminateOnLeave = False\<rparr>
      else Inl BadParameter)"

text \<open>
  The loop over the participants for one require policy. \<open>None\<close> means that the loop ran
  to its end and the next require policy is tried; the test \<^verbatim>\<open>left <= 0\<close> stands inside the
  loop body, after the participant has been examined. \<^verbatim>\<open>left\<close> is the \<^verbatim>\<open>int32\<close> copied from
  \<^verbatim>\<open>Count\<close>: \<^verbatim>\<open>left--\<close> is the subtraction on words, which wraps, and the test reads the word
  as a signed number.
\<close>

fun FulfilledFor_participants ::
  "whereParser \<Rightarrow> SessionAccessEvaluator \<Rightarrow> SessionRequirePolicy \<Rightarrow> 32 word \<Rightarrow>
   SessionAccessContext list \<Rightarrow> error + PolicyOptions option" where
  "FulfilledFor_participants parser e requirePolicy left [] = Inr None"
| "FulfilledFor_participants parser e requirePolicy left (participant # rest) =
     (case FulfilledFor_allow parser e participant requirePolicy (getAllowPolicies participant) of
        Inl err \<Rightarrow> Inl err
      | Inr counted \<Rightarrow>
          (let left' = (if counted then left - 1 else left) in
           if sint left' \<le> 0 then
             (case FulfilledFor_options requirePolicy of
                Inl err \<Rightarrow> Inl err
              | Inr options \<Rightarrow> Inr (Some options))
           else FulfilledFor_participants parser e requirePolicy left' rest))"

fun FulfilledFor_requires ::
  "whereParser \<Rightarrow> SessionAccessEvaluator \<Rightarrow> SessionRequirePolicy list \<Rightarrow>
   SessionAccessContext list \<Rightarrow> error + (bool \<times> PolicyOptions)" where
  "FulfilledFor_requires parser e [] participants = Inr (False, \<lparr>TerminateOnLeave = False\<rparr>)"
| "FulfilledFor_requires parser e (requirePolicy # rest) participants =
     (case FulfilledFor_participants parser e requirePolicy (Count requirePolicy) participants of
        Inl err \<Rightarrow> Inl err
      | Inr (Some options) \<Rightarrow> Inr (True, options)
      | Inr None \<Rightarrow> FulfilledFor_requires parser e rest participants)"

definition FulfilledFor ::
  "whereParser \<Rightarrow> SessionAccessEvaluator \<Rightarrow> SessionAccessContext list \<Rightarrow>
   error + (bool \<times> PolicyOptions)" where
  "FulfilledFor parser e participants =
     (case supportsSessionAccessControls e of
        Inl err \<Rightarrow> Inl err
      | Inr supported \<Rightarrow>
          if length (requires e) = 0 \<or> \<not> supported then Inr (True, \<lparr>TerminateOnLeave = False\<rparr>)
          else FulfilledFor_requires parser e (requires e) participants)"

text \<open>
  Whether a participant is counted towards a require policy: the innermost loop returns
  \<^verbatim>\<open>true\<close> for it. Used to state what the loops compute.
\<close>

definition isCounted ::
  "whereParser \<Rightarrow> SessionAccessEvaluator \<Rightarrow> SessionRequirePolicy \<Rightarrow> SessionAccessContext \<Rightarrow> bool" where
  "isCounted parser e requirePolicy participant =
     (FulfilledFor_allow parser e participant requirePolicy (getAllowPolicies participant) = Inr True)"

definition legacyVersion :: "Role \<Rightarrow> bool" where
  "legacyVersion role =
     (GetVersion role = V1 \<or> GetVersion role = V2 \<or> GetVersion role = V3 \<or> GetVersion role = V4)"

text \<open>
  The role condition of a join policy as the specification words it (section 4.B,
  condition 3): some entry of the policy's roles, read as a glob pattern, matches the name
  of some host role. It is compared with \<open>matchesJoin\<close> below.
\<close>

definition specMatchesRoles :: "SessionJoinPolicy \<Rightarrow> Role list \<Rightarrow> bool" where
  "specMatchesRoles allow hostRoles =
     list_ex (\<lambda>pattern. list_ex (\<lambda>role. globMatch pattern (GetName role)) hostRoles)
       (JoinRoles allow)"

subsection \<open>The session tracker list (package \<^verbatim>\<open>local\<close>)\<close>

datatype SessionState = SessionStatePending | SessionStateRunning | SessionStateTerminated

text \<open>
  Of a tracker resource the list maintenance reads three getters. Points in time are
  integers counting seconds; \<^verbatim>\<open>gcDelay\<close> is five minutes.
\<close>

record SessionTracker =
  GetCreated :: int
  GetExpires :: int
  GetState :: SessionState

definition gcDelay :: int where
  "gcDelay = 5 * 60"

text \<open>
  The backend is a key-value store. All keys of the service are
  \<^verbatim>\<open>backend.Key(sessionPrefix, x)\<close>, so a key is modelled by its last component \<open>x\<close>: the
  constant \<^verbatim>\<open>sessionList\<close> for the list of session ids, a session id for a tracker. A value
  is the JSON of a list of ids or the JSON of a tracker; reading one as the other fails in
  the unmarshaller.
\<close>

datatype item = ListItem "string list" | TrackerItem SessionTracker

type_synonym backend = "string \<rightharpoonup> item"

definition sessionList :: string where
  "sessionList = ''list''"

definition loadSession :: "backend \<Rightarrow> string \<Rightarrow> error + SessionTracker" where
  "loadSession bk sessionID =
     (case bk sessionID of
        None \<Rightarrow> Inl NotFound
      | Some (TrackerItem session) \<Rightarrow> Inr session
      | Some (ListItem ids) \<Rightarrow> Inl BadParameter)"

text \<open>
  Modelled from the spec: \<^verbatim>\<open>CompareAndSwap\<close> and \<^verbatim>\<open>Delete\<close> of the key-value backend (section 6),
  whose code is not among the sources. Each is atomic per key: the swap succeeds when the
  stored item is the expected one and fails with \<open>CompareFailed\<close> otherwise; deleting a key
  that is not stored fails with \<open>NotFound\<close>.
\<close>

definition CompareAndSwap :: "backend \<Rightarrow> string \<Rightarrow> item \<Rightarrow> item \<Rightarrow> error + backend" where
  "CompareAndSwap bk key expected replaceWith =
     (case bk key of
        None \<Rightarrow> Inl CompareFailed
      | Some stored \<Rightarrow>
          if stored = expected then Inr (bk(key \<mapsto> replaceWith)) else Inl CompareFailed)"

definition Delete :: "backend \<Rightarrow> string \<Rightarrow> error + backend" where
  "Delete bk key = (case bk key of None \<Rightarrow> Inl NotFound | Some stored \<Rightarrow> Inr (bk(key := None)))"

text \<open>
  The loop of \<^verbatim>\<open>removeSessionFromList\<close> over the list read from the backend. \<open>pre\<close> holds the
  ids already passed, so \<open>pre @ rest\<close> is \<^verbatim>\<open>append(list[:i], list[i+1:]...)\<close>. The result
  \<open>Some list'\<close> is the list after the \<^verbatim>\<open>break\<close> (\<^verbatim>\<open>found = true\<close>), \<open>None\<close> means that the loop
  ran to its end (\<^verbatim>\<open>found = false\<close>). \<^verbatim>\<open>time.Now()\<close> is the parameter \<open>now\<close>.

  The loop body of the source ends with a second test, \<^verbatim>\<open>if doGC { s.RemoveSessionTracker(ctx, id) }\<close>.
  It stands after the branch that leaves the loop whenever \<^verbatim>\<open>doGC\<close> holds, so it is never
  entered; the model has no branch for it.
\<close>

fun removeSessionFromList_loop ::
  "int \<Rightarrow> backend \<Rightarrow> string \<Rightarrow> string list \<Rightarrow> string list \<Rightarrow> error + string list option" where
  "removeSessionFromList_loop now bk sessionID pre [] = Inr None"
| "removeSessionFromList_loop now bk sessionID pre (id' # rest) =
     (case loadSession bk id' of
        Inl err \<Rightarrow> Inl err
      | Inr session \<Rightarrow>
          (let doGC = (GetCreated session + gcDelay < now \<and> GetState session = SessionStateTerminated);
               isStale = (GetExpires session < now)
           in if id' = sessionID \<or> doGC \<or> isStale then Inr (Some (pre @ rest))
              else removeSessionFromList_loop now bk sessionID (pre @ [id']) rest))"

text \<open>
  \<^verbatim>\<open>removeSessionFromList\<close> calls itself again when the swap fails with \<open>CompareFailed\<close>. In a run
  without concurrent writers the stored list is the one just read, the swap succeeds and
  the retry is never taken, which is what the termination proof shows.
\<close>

function removeSessionFromList :: "int \<Rightarrow> backend \<Rightarrow> string \<Rightarrow> error + backend" where
  "removeSessionFromList now bk sessionID =
     (case bk sessionList of
        None \<Rightarrow> Inl NotFound
      | Some listItem \<Rightarrow>
          (case listItem of
             TrackerItem session \<Rightarrow> Inl OtherError
           | ListItem ids \<Rightarrow>
               (case removeSessionFromList_loop now bk sessionID [] ids of
                  Inl err \<Rightarrow> Inl err
                | Inr None \<Rightarrow> Inl NotFound
                | Inr (Some ids') \<Rightarrow>
                    (case CompareAndSwap bk sessionList listItem (ListItem ids') of
                       Inl err \<Rightarrow>
                         if err = CompareFailed then removeSessionFromList now bk sessionID
                         else Inl err
                     | Inr bk' \<Rightarrow> Inr bk'))))"
  by pat_completeness auto
termination
  by (relation "{}") (auto simp: CompareAndSwap_def)

definition RemoveSessionTracker :: "int \<Rightarrow> backend \<Rightarrow> string \<Rightarrow> error + backend" where
  "RemoveSessionTracker now bk sessionID =
     (case removeSessionFromList now bk sessionID of
        Inl err \<Rightarrow> Inl err
      | Inr bk' \<Rightarrow> Delete bk' sessionID)"

text \<open>
  What the specification asks of \<^verbatim>\<open>Remove(id)\<close>: the list after a full pass, without the
  requested id and without every entry that is garbage (terminated and older than
  \<^verbatim>\<open>gcDelay\<close>, or expired). An id whose tracker cannot be loaded is kept.
\<close>

definition isGarbage :: "int \<Rightarrow> backend \<Rightarrow> string \<Rightarrow> bool" where
  "isGarbage now bk sessionID =
     (case loadSession bk sessionID of
        Inl err \<Rightarrow> False
      | Inr session \<Rightarrow>
          (GetCreated session + gcDelay < now \<and> GetState session = SessionStateTerminated)
          \<or> GetExpires session < now)"

definition specRemoveFullPass :: "int \<Rightarrow> backend \<Rightarrow> string \<Rightarrow> string list \<Rightarrow> string list" where
  "specRemoveFullPass now bk sessionID ids =
     filter (\<lambda>x. \<not> (x = sessionID \<or> isGarbage now bk x)) ids"

subsection \<open>The live session (package \<^verbatim>\<open>proxy\<close>)\<close>

type_synonym uuid = string

text \<open>
  Of the \<^verbatim>\<open>authContext\<close> of a party the session reads the user name
  (\<^verbatim>\<open>Ctx.User.GetName()\<close>) and, from the identity, the role names (\<^verbatim>\<open>Groups\<close>), the
  impersonator and the MFA device (\<^verbatim>\<open>MFAVerified\<close>).
\<close>

record authContext =
  User :: string
  Groups :: "string list"
  Impersonator :: string
  MFAVerified :: string

text \<open>
  \<^verbatim>\<open>remoteClient\<close> is an interface to the remote end of a party. The model holds what its
  fallible methods return: the write of the recent history to \<^verbatim>\<open>stdoutStream()\<close>,
  \<^verbatim>\<open>Close\<close>, \<^verbatim>\<open>sendStatus\<close> and \<^verbatim>\<open>resize\<close>.
\<close>

record remoteClient =
  stdoutWrite :: "error option"
  clientClose :: "error option"
  sendStatus :: "error option"
  resize :: "error option"

record party =
  Ctx :: authContext
  ID :: uuid
  Client :: remoteClient
  Mode :: SessionParticipantMode

text \<open>
  Modelled from the spec: \<^verbatim>\<open>srv.TermManager\<close>, the terminal I/O manager (section 4.D), which is
  not among the sources. It holds the named readers and writers, the messages broadcast so
  far, the on/off gate and whether it has been closed.
\<close>

record TermManager =
  readers :: "string list"
  writers :: "string list"
  messages :: "string list"
  isOn :: bool
  isClosed :: bool

definition AddReader :: "string \<Rightarrow> TermManager \<Rightarrow> TermManager" where
  "AddReader name m = m\<lparr>readers := (if name \<in> set (readers m) then readers m else readers m @ [name])\<rparr>"

definition AddWriter :: "string \<Rightarrow> TermManager \<Rightarrow> TermManager" where
  "AddWriter name m = m\<lparr>writers := (if name \<in> set (writers m) then writers m else writers m @ [name])\<rparr>"

definition DeleteReader :: "string \<Rightarrow> TermManager \<Rightarrow> TermManager" where
  "DeleteReader name m = m\<lparr>readers := removeAll name (readers m)\<rparr>"

definition DeleteWriter :: "string \<Rightarrow> TermManager \<Rightarrow> TermManager" where
  "DeleteWriter name m = m\<lparr>writers := removeAll name (writers m)\<rparr>"

definition BroadcastMessage :: "string \<Rightarrow> TermManager \<Rightarrow> TermManager" where
  "BroadcastMessage message m = m\<lparr>messages := messages m @ [message]\<rparr>"

definition CloseTermManager :: "TermManager \<Rightarrow> TermManager" where
  "CloseTermManager m = m\<lparr>isClosed := True\<rparr>"

text \<open>
  \<^verbatim>\<open>multiResizeQueue\<close>: the keys of its map \<^verbatim>\<open>queues\<close> (the select cases are rebuilt from
  the map on every change).
\<close>

record multiResizeQueue =
  queues :: "string list"

definition addQueue :: "string \<Rightarrow> multiResizeQueue \<Rightarrow> multiResizeQueue" where
  "addQueue id' r = r\<lparr>queues := (if id' \<in> set (queues r) then queues r else queues r @ [id'])\<rparr>"

definition removeQueue :: "string \<Rightarrow> multiResizeQueue \<Rightarrow> multiResizeQueue" where
  "removeQueue id' r = r\<lparr>queues := removeAll id' (queues r)\<rparr>"

text \<open>
  Audit events. \<open>Struct\<close> is the Go type of the event value (\<^verbatim>\<open>apievents.SessionLeave\<close> and
  so on); \<open>Type\<close> and \<open>Code\<close> are the fields of its \<^verbatim>\<open>Metadata\<close>, whose values are the named
  constants of package \<^verbatim>\<open>events\<close> (not among the sources, so each constant is a constructor
  of its own).
\<close>

datatype event_struct =
  apievents_SessionStart | apievents_SessionJoin | apievents_SessionLeave
  | apievents_SessionData | apievents_SessionEnd | apievents_Exec

datatype event_type =
  SessionStartEvent | SessionJoinEvent | SessionLeaveEvent | SessionDataEvent
  | SessionEndEvent | ExecEvent

datatype event_code =
  SessionStartCode | SessionJoinCode | SessionLeaveCode | SessionDataCode | SessionEndCode
  | ExecCode | ExecFailureCode

record audit_event =
  Struct :: event_struct
  Type :: event_type
  Code :: event_code
  SessionID :: uuid
  UserName :: string
  Login :: string
  Participants :: "string list"

text \<open>
  The emitter of a session is the discard emitter until \<^verbatim>\<open>launch\<close> replaces it by the
  recorder or by the stream emitter of the forwarder.
\<close>

datatype emitter = DiscardEmitter | RecorderEmitter | StreamEmitter

text \<open>The goroutines a session starts with \<^verbatim>\<open>go\<close>; they run later, on their own.\<close>

datatype task =
  CloseTask | LaunchTask | WaitOnAccessTask | ForceTerminateWatcher uuid
  | ExpiryWatcher | PresenceTicker

datatype tracker_update =
  UpdateState SessionState
  | AddParticipant uuid string SessionParticipantMode
  | RemoveParticipant uuid

text \<open>
  The session. The maps \<^verbatim>\<open>parties\<close> and \<^verbatim>\<open>partiesHistorical\<close> are association lists, so that
  ranging over them has an order (Go leaves it open); \<^verbatim>\<open>s.parties[k] = p\<close> is
  \<open>AList.update\<close>, \<^verbatim>\<open>delete\<close> is \<open>AList.delete\<close>, a lookup is \<open>map_of\<close>. The field \<^verbatim>\<open>id\<close> is
  \<open>id'\<close> here, \<^verbatim>\<open>stateUpdate\<close> holds the states submitted to the broadcaster, \<^verbatim>\<open>closeC\<close> and
  \<^verbatim>\<open>closeOnce\<close> say whether the channel is closed and whether the latch has fired,
  \<^verbatim>\<open>recorder\<close> is \<open>None\<close> for \<^verbatim>\<open>nil\<close> and otherwise says whether the recorder has been
  closed. \<open>podNameParam\<close> is \<^verbatim>\<open>s.params.ByName("podName")\<close> and \<open>noAuditEvents\<close> the flag of
  \<^verbatim>\<open>s.sess\<close>. Three fields record effects that leave the session value: \<open>emitted\<close>, the
  events handed to \<^verbatim>\<open>EmitAuditEvent\<close> with the emitter that received them; \<open>spawned\<close>, the
  goroutines started; \<open>closedParties\<close>, the parties whose close latch has fired (a party
  is shared by pointer between the two rosters). An operation is one step that runs to
  its end, and the goroutines it starts run as steps of their own. The field \<open>mu\<close> says
  whether the mutex \<^verbatim>\<open>s.mu\<close> is held between two steps: \<^verbatim>\<open>join\<close> and \<^verbatim>\<open>Close\<close> take it and
  give it back within their step, and only \<^verbatim>\<open>launch\<close> can end with the mutex held. A call
  that finds the mutex held waits and changes nothing; the operations below are the steps
  of a call that gets the mutex.
\<close>

record session =
  ctx :: authContext
  id' :: uuid
  parties :: "(uuid \<times> party) list"
  partiesHistorical :: "(uuid \<times> party) list"
  io :: TermManager
  terminalSizeQueue :: multiResizeQueue
  state :: SessionState
  stateUpdate :: "SessionState list"
  accessEvaluator :: SessionAccessEvaluator
  recorder :: "bool option"
  emitter :: emitter
  tty :: bool
  podName :: string
  podNameParam :: string
  started :: bool
  initiator :: uuid
  expires :: int
  closeC :: bool
  closeOnce :: bool
  PresenceEnabled :: bool
  noAuditEvents :: bool
  emitted :: "(emitter \<times> audit_event) list"
  spawned :: "task list"
  closedParties :: "uuid list"
  mu :: bool

text \<open>
  The collaborators of a session, reached through the forwarder: the filter parser of the
  evaluator, the role directory (\<^verbatim>\<open>CachingAuthClient.GetRole\<close>), the tracker service
  (\<^verbatim>\<open>AuthClient.UpdateSessionTracker\<close>, by session id) and, for \<^verbatim>\<open>launch\<close>, the results of
  \<^verbatim>\<open>newStreamer\<close>, \<^verbatim>\<open>events.NewAuditWriter\<close>, \<^verbatim>\<open>getExecutor\<close> and \<^verbatim>\<open>executor.Stream\<close>.
\<close>

record env =
  filterParser :: whereParser
  GetRole :: "string \<Rightarrow> error + Role"
  UpdateSessionTracker :: "uuid \<Rightarrow> tracker_update \<Rightarrow> error option"
  newStreamer :: "error option"
  NewAuditWriter :: "error option"
  getExecutor :: "error option"
  executorStream :: "error option"

fun getRolesByName_loop :: "env \<Rightarrow> Role list \<Rightarrow> string list \<Rightarrow> error + Role list" where
  "getRolesByName_loop E rs [] = Inr rs"
| "getRolesByName_loop E rs (roleName # rest) =
     (case GetRole E roleName of
        Inl err \<Rightarrow> Inl err
      | Inr role \<Rightarrow> getRolesByName_loop E (rs @ [role]) rest)"

definition getRolesByName :: "env \<Rightarrow> string list \<Rightarrow> error + Role list" where
  "getRolesByName E roleNames = getRolesByName_loop E [] roleNames"

definition trackerAddParticipant :: "env \<Rightarrow> session \<Rightarrow> party \<Rightarrow> error option" where
  "trackerAddParticipant E s participant =
     UpdateSessionTracker E (id' s)
       (AddParticipant (ID participant) (User (Ctx participant)) (Mode participant))"

definition trackerRemoveParticipant :: "env \<Rightarrow> session \<Rightarrow> uuid \<Rightarrow> error option" where
  "trackerRemoveParticipant E s participantID =
     UpdateSessionTracker E (id' s) (RemoveParticipant participantID)"

definition trackerUpdateState :: "env \<Rightarrow> session \<Rightarrow> SessionState \<Rightarrow> error option" where
  "trackerUpdateState E s st = UpdateSessionTracker E (id' s) (UpdateState st)"

definition EmitAuditEvent :: "audit_event \<Rightarrow> session \<Rightarrow> session" where
  "EmitAuditEvent event s = s\<lparr>emitted := emitted s @ [(emitter s, event)]\<rparr>"

definition broadcast :: "string \<Rightarrow> session \<Rightarrow> session" where
  "broadcast message s = s\<lparr>io := BroadcastMessage message (io s)\<rparr>"

definition spawn :: "task \<Rightarrow> session \<Rightarrow> session" where
  "spawn t s = s\<lparr>spawned := spawned s @ [t]\<rparr>"

text \<open>
  \<^verbatim>\<open>party.Close\<close>: the body runs once per party; a later call returns \<^verbatim>\<open>nil\<close>.
\<close>

definition partyClose :: "party \<Rightarrow> session \<Rightarrow> error option \<times> session" where
  "partyClose p s =
     (if ID p \<in> set (closedParties s) then (None, s)
      else (clientClose (Client p), s\<lparr>closedParties := closedParties s @ [ID p]\<rparr>))"

text \<open>
  \<^verbatim>\<open>canStart\<close>: the loop builds one \<^verbatim>\<open>SessionAccessContext{Roles: roles}\<close> per party whose user
  is not the user of the session; \<^verbatim>\<open>Username\<close> is not set and so is Go's empty string.
\<close>

fun canStart_loop ::
  "env \<Rightarrow> session \<Rightarrow> SessionAccessContext list \<Rightarrow> (uuid \<times> party) list \<Rightarrow>
   error + SessionAccessContext list" where
  "canStart_loop E s participants [] = Inr participants"
| "canStart_loop E s participants ((k, party) # rest) =
     (if User (Ctx party) = User (ctx s) then canStart_loop E s participants rest
      else
        (case getRolesByName E (Groups (Ctx party)) of
           Inl err \<Rightarrow> Inl err
         | Inr rs \<Rightarrow> canStart_loop E s (participants @ [\<lparr>Username = [], Roles = rs\<rparr>]) rest))"

definition canStart :: "env \<Rightarrow> session \<Rightarrow> error + (bool \<times> PolicyOptions)" where
  "canStart E s =
     (case canStart_loop E s [] (parties s) of
        Inl err \<Rightarrow> Inl err
      | Inr participants \<Rightarrow> FulfilledFor (filterParser E) (accessEvaluator s) participants)"

text \<open>
  \<^verbatim>\<open>Close\<close>: the body is guarded by \<^verbatim>\<open>closeOnce\<close>. The error of the tracker update and the
  errors of closing the parties are logged only, and \<^verbatim>\<open>Close\<close> returns \<^verbatim>\<open>nil\<close>, so the model
  returns the session alone. Closing the broadcaster after the last submit leaves the
  submitted states as they are.
\<close>

fun Close_parties :: "(uuid \<times> party) list \<Rightarrow> session \<Rightarrow> session" where
  "Close_parties [] s = s"
| "Close_parties ((k, p) # rest) s = Close_parties rest (snd (partyClose p s))"

definition Close :: "session \<Rightarrow> session" where
  "Close s =
     (if closeOnce s then s
      else
        (let s1 = broadcast ''Closing session...'' (s\<lparr>closeOnce := True\<rparr>);
             s2 = s1\<lparr>state := SessionStateTerminated\<rparr>;
             s3 = s2\<lparr>io := CloseTermManager (io s2)\<rparr>;
             s4 = s3\<lparr>stateUpdate := stateUpdate s3 @ [SessionStateTerminated]\<rparr>;
             s5 = s4\<lparr>closeC := True\<rparr>;
             s6 = Close_parties (parties s5) s5
         in (case recorder s6 of None \<Rightarrow> s6 | Some c \<Rightarrow> s6\<lparr>recorder := Some True\<rparr>)))"

text \<open>
  \<^verbatim>\<open>join\<close>, in three parts. \<open>join_access\<close> is the access check of a party that is not the
  initiator's user.
\<close>

definition join_access :: "env \<Rightarrow> session \<Rightarrow> party \<Rightarrow> error option" where
  "join_access E s p =
     (if User (Ctx p) \<noteq> User (ctx s) then
        (case getRolesByName E (Groups (Ctx p)) of
           Inl err \<Rightarrow> Some err
         | Inr rs \<Rightarrow>
             (case CanJoin (accessEvaluator s) \<lparr>Username = User (Ctx p), Roles = rs\<rparr> of
                Inl err \<Rightarrow> Some err
              | Inr modes \<Rightarrow>
                  if \<not> SliceContainsMode modes (Mode p) then Some AccessDenied else None))
      else None)"

text \<open>
  \<open>join_start\<close> is the end of \<^verbatim>\<open>join\<close>, from the test of the state on: the session is started
  or resumed when \<^verbatim>\<open>canStart\<close> allows it.
\<close>

definition join_start :: "env \<Rightarrow> session \<Rightarrow> error option \<times> session" where
  "join_start E s =
     (if state s \<noteq> SessionStatePending then (None, s)
      else
        (case canStart E s of
           Inl err \<Rightarrow> (Some err, s)
         | Inr (canStart', options) \<Rightarrow>
             if started s \<and> canStart' then
               (None, s\<lparr>state := SessionStateRunning,
                         stateUpdate := stateUpdate s @ [SessionStateRunning]\<rparr>)
             else if canStart' then (None, spawn LaunchTask s)
             else if \<not> tty s then (Some AccessDenied, s)
             else (None, broadcast ''Waiting for required participants...'' s)))"

text \<open>
  \<open>join_register\<close> is the middle part: the party is entered in both rosters, announced to
  the tracker, the audit log and the other parties, and its streams are registered.
\<close>

definition join_register :: "env \<Rightarrow> session \<Rightarrow> party \<Rightarrow> error option \<times> session" where
  "join_register E s p =
     (let stringID = ID p;
          s1 = s\<lparr>parties := AList.update (ID p) p (parties s),
                 partiesHistorical := AList.update (ID p) p (partiesHistorical s)\<rparr>
      in case trackerAddParticipant E s1 p of
           Some err \<Rightarrow> (Some err, s1)
         | None \<Rightarrow>
             (let sessionJoinEvent = \<lparr>Struct = apievents_SessionJoin, Type = SessionJoinEvent,
                    Code = SessionJoinCode, SessionID = id' s1, UserName = User (Ctx p),
                    Login = ''root'', Participants = []\<rparr>;
                  s2 = EmitAuditEvent sessionJoinEvent s1;
                  s3 = broadcast (''User '' @ User (Ctx p) @ '' joined the session.'') s2;
                  s4 = (if tty s3
                        then s3\<lparr>terminalSizeQueue := addQueue stringID (terminalSizeQueue s3)\<rparr>
                        else s3);
                  s5 = (if tty s4 \<and> User (Ctx p) = User (ctx s4)
                        then s4\<lparr>io := AddReader stringID (io s4)\<rparr>
                        else s4)
              in case stdoutWrite (Client p) of
                   Some err \<Rightarrow> (Some err, s5)
                 | None \<Rightarrow>
                     (let s6 = s5\<lparr>io := AddWriter stringID (io s5)\<rparr>;
                          s7 = (if Mode p \<noteq> SessionObserverMode
                                then spawn (ForceTerminateWatcher (ID p)) s6
                                else s6)
                      in (None, s7))))"

definition join :: "env \<Rightarrow> session \<Rightarrow> party \<Rightarrow> error option \<times> session" where
  "join E s p =
     (case join_access E s p of
        Some err \<Rightarrow> (Some err, s)
      | None \<Rightarrow>
          (case join_register E s p of
             (Some err, s') \<Rightarrow> (Some err, s')
           | (None, s') \<Rightarrow> join_start E s'))"

text \<open>
  \<^verbatim>\<open>leave\<close>. The event is built as \<^verbatim>\<open>apievents.SessionLeave\<close>; its \<^verbatim>\<open>Metadata\<close> is written
  with \<^verbatim>\<open>events.SessionJoinEvent\<close> and \<^verbatim>\<open>events.SessionJoinCode\<close>, as in the source.
\<close>

definition leave :: "env \<Rightarrow> session \<Rightarrow> uuid \<Rightarrow> error option \<times> session" where
  "leave E s k =
     (if state s = SessionStateTerminated then (None, s)
      else
        (case map_of (parties s) k of
           None \<Rightarrow> (None, s)
         | Some party \<Rightarrow>
             (let stringID = k;
                  s1 = s\<lparr>parties := AList.delete k (parties s)\<rparr>;
                  s2 = s1\<lparr>terminalSizeQueue := removeQueue stringID (terminalSizeQueue s1)\<rparr>;
                  s3 = s2\<lparr>io := DeleteWriter stringID (DeleteReader stringID (io s2))\<rparr>;
                  s4 = broadcast (''User '' @ User (Ctx party) @ '' left the session.'') s3;
                  sessionLeaveEvent = \<lparr>Struct = apievents_SessionLeave, Type = SessionJoinEvent,
                    Code = SessionJoinCode, SessionID = id' s4, UserName = User (Ctx party),
                    Login = ''root'', Participants = []\<rparr>;
                  s5 = EmitAuditEvent sessionLeaveEvent s4
              in case trackerRemoveParticipant E s5 (ID party) of
                   Some err \<Rightarrow> (Some err, s5)
                 | None \<Rightarrow>
                     (case partyClose party s5 of
                        (Some err, s6) \<Rightarrow> (Some err, s6)
                      | (None, s6) \<Rightarrow>
                          if length (parties s6) = 0 \<or> k = initiator s6
                          then (None, spawn CloseTask s6)
                          else
                            (case canStart E s6 of
                               Inl err \<Rightarrow> (Some err, s6)
                             | Inr (canStart', options) \<Rightarrow>
                                 if \<not> canStart' then
                                   (if TerminateOnLeave options then (None, spawn CloseTask s6)
                                    else
                                      (None,
                                       spawn WaitOnAccessTask
                                         (s6\<lparr>state := SessionStatePending,
                                              stateUpdate := stateUpdate s6 @ [SessionStatePending]\<rparr>)))
                                 else (None, s6))))))"

text \<open>
  \<^verbatim>\<open>launch\<close>. \<open>launch_begin\<close> is the function up to the call of \<^verbatim>\<open>executor.Stream\<close>, which
  blocks while the session runs; \<open>launch_events\<close> is the deferred function that reports the
  end of the run. \<open>launch_body\<close> is the whole function body, with the executor returning
  the result the environment gives, and \<open>launch\<close> adds the deferred \<^verbatim>\<open>Close\<close>, which runs
  last. The callbacks that \<^verbatim>\<open>launch\<close> installs (\<^verbatim>\<open>OnWriteError\<close>, the resize callback) are
  closures that run later and are not part of the session value; the errors of
  \<^verbatim>\<open>sendStatus\<close> and of emitting an event are logged only.

  \<^verbatim>\<open>launch\<close> takes the mutex with \<^verbatim>\<open>s.mu.Lock()\<close> after it has started its goroutines and
  gives it back only just before \<^verbatim>\<open>executor.Stream\<close>. Each error return before that point
  (the tracker update, \<^verbatim>\<open>newStreamer\<close>, \<^verbatim>\<open>NewAuditWriter\<close>, \<^verbatim>\<open>getExecutor\<close>) leaves the
  mutex held. The deferred \<^verbatim>\<open>Close\<close> then asks for the same mutex and blocks for good: its
  body does not run and the call of \<^verbatim>\<open>launch\<close> does not come back. On that path the result
  of \<open>launch\<close> is the error on its way out and the session as it stays, with \<open>mu\<close> held.
\<close>

definition launch_event ::
  "session \<Rightarrow> event_struct \<Rightarrow> event_type \<Rightarrow> event_code \<Rightarrow> string list \<Rightarrow> audit_event" where
  "launch_event s st ty co ps =
     \<lparr>Struct = st, Type = ty, Code = co, SessionID = id' s, UserName = User (ctx s),
      Login = User (ctx s), Participants = ps\<rparr>"

definition allParticipants :: "session \<Rightarrow> string list" where
  "allParticipants s = map (\<lambda>(k, p). User (Ctx p)) (partiesHistorical s)"

definition launch_events :: "error option \<Rightarrow> session \<Rightarrow> session" where
  "launch_events err s =
     (if tty s then
        EmitAuditEvent
          (launch_event s apievents_SessionEnd SessionEndEvent SessionEndCode (allParticipants s))
          (EmitAuditEvent
             (launch_event s apievents_SessionData SessionDataEvent SessionDataCode []) s)
      else
        EmitAuditEvent
          (launch_event s apievents_Exec ExecEvent
             (case err of Some e \<Rightarrow> ExecFailureCode | None \<Rightarrow> ExecCode) []) s)"

definition launch_begin :: "env \<Rightarrow> session \<Rightarrow> error option \<times> session" where
  "launch_begin E s =
     (let s1 = spawn ExpiryWatcher s;
          s2 = (if PresenceEnabled s1 then spawn PresenceTicker s1 else s1);
          s3 = broadcast ''Launching session...'' (s2\<lparr>mu := True\<rparr>);
          s4 = s3\<lparr>podName := podNameParam s3\<rparr>
      in case trackerUpdateState E s4 SessionStateRunning of
           Some err \<Rightarrow> (Some err, s4)
         | None \<Rightarrow>
             (let s5 = s4\<lparr>started := True\<rparr>
              in case
                   (if \<not> noAuditEvents s5 \<and> tty s5 then
                      (case newStreamer E of
                         Some err \<Rightarrow> (Some err, s5)
                       | None \<Rightarrow>
                           (let s6 = s5\<lparr>recorder := Some False, emitter := RecorderEmitter\<rparr>
                            in case NewAuditWriter E of
                                 Some err \<Rightarrow> (Some err, s6)
                               | None \<Rightarrow> (None, s6\<lparr>io := AddWriter ''recorder'' (io s6)\<rparr>)))
                    else if \<not> noAuditEvents s5 then (None, s5\<lparr>emitter := StreamEmitter\<rparr>)
                    else (None, s5))
                 of
                   (Some err, s7) \<Rightarrow> (Some err, s7)
                 | (None, s7) \<Rightarrow>
                     (let s8 =
                        (if tty s7 then
                           EmitAuditEvent
                             (launch_event s7 apievents_SessionStart SessionStartEvent
                                SessionStartCode []) s7
                         else s7)
                      in case getExecutor E of
                           Some err \<Rightarrow> (Some err, s8)
                         | None \<Rightarrow> (None, s8\<lparr>mu := False\<rparr>))))"

definition launch_body :: "env \<Rightarrow> session \<Rightarrow> error option \<times> session" where
  "launch_body E s =
     (case launch_begin E s of
        (Some err, s') \<Rightarrow> (Some err, s')
      | (None, s') \<Rightarrow> (executorStream E, launch_events (executorStream E) s'))"

definition launch :: "env \<Rightarrow> session \<Rightarrow> error option \<times> session" where
  "launch E s =
     (case launch_body E s of (err, s') \<Rightarrow> (err, if mu s' then s' else Close s'))"

subsection \<open>Sample configurations\<close>

text \<open>
  A stand-in for the predicate library in the concrete examples: it reads the filter text
  as the name of a role that the participant must hold, and resolves
  \<^verbatim>\<open>participant.roles\<close> through the resolver it is given.
\<close>

definition sampleWhereParser :: whereParser where
  "sampleWhereParser getIdentifier flt =
     (case getIdentifier [''participant'', ''roles''] of
        Inl err \<Rightarrow> Inl err
      | Inr (IdStrings names) \<Rightarrow> Inr (contains names flt)
      | Inr (IdString name) \<Rightarrow> Inl BadParameter)"

definition requireOne :: SessionRequirePolicy where
  "requireOne = \<lparr>Filter = ''participant'', RequireKinds = [''*''], Count = 1,
     OnLeave = OnSessionLeaveTerminate\<rparr>"

definition requireZero :: SessionRequirePolicy where
  "requireZero = \<lparr>Filter = ''participant'', RequireKinds = [''*''], Count = 0,
     OnLeave = OnSessionLeaveTerminate\<rparr>"

definition requireTwoNoOnLeave :: SessionRequirePolicy where
  "requireTwoNoOnLeave = \<lparr>Filter = ''participant'', RequireKinds = [''*''], Count = 2,
     OnLeave = []\<rparr>"

definition requireMin :: SessionRequirePolicy where
  "requireMin = \<lparr>Filter = ''participant'', RequireKinds = [''*''], Count = MinInt32,
     OnLeave = OnSessionLeaveTerminate\<rparr>"

definition hostRole :: Role where
  "hostRole = \<lparr>GetName = ''host'', GetVersion = V5,
     GetSessionRequirePolicies = [requireOne], GetSessionJoinPolicies = []\<rparr>"

definition hostRoleZero :: Role where
  "hostRoleZero = \<lparr>GetName = ''host'', GetVersion = V5,
     GetSessionRequirePolicies = [requireZero], GetSessionJoinPolicies = []\<rparr>"

definition hostRoleTwoPolicies :: Role where
  "hostRoleTwoPolicies = \<lparr>GetName = ''host'', GetVersion = V5,
     GetSessionRequirePolicies = [requireTwoNoOnLeave, requireOne], GetSessionJoinPolicies = []\<rparr>"

definition hostRoleMin :: Role where
  "hostRoleMin = \<lparr>GetName = ''host'', GetVersion = V5,
     GetSessionRequirePolicies = [requireMin], GetSessionJoinPolicies = []\<rparr>"

definition legacyHostRole :: Role where
  "legacyHostRole = \<lparr>GetName = ''host'', GetVersion = V3,
     GetSessionRequirePolicies = [requireOne], GetSessionJoinPolicies = []\<rparr>"

definition legacyRole :: Role where
  "legacyRole = \<lparr>GetName = ''legacy'', GetVersion = V4,
     GetSessionRequirePolicies = [], GetSessionJoinPolicies = []\<rparr>"

definition joinHost :: SessionJoinPolicy where
  "joinHost = \<lparr>JoinRoles = [''host''], JoinKinds = [''*''], JoinModes = [''peer'']\<rparr>"

definition joinAny :: SessionJoinPolicy where
  "joinAny = \<lparr>JoinRoles = [''*''], JoinKinds = [''*''], JoinModes = [''peer'']\<rparr>"

definition participantRole :: Role where
  "participantRole = \<lparr>GetName = ''participant'', GetVersion = V5,
     GetSessionRequirePolicies = [], GetSessionJoinPolicies = [joinHost]\<rparr>"

definition alice :: SessionAccessContext where
  "alice = \<lparr>Username = ''alice'', Roles = [participantRole]\<rparr>"

definition bob :: SessionAccessContext where
  "bob = \<lparr>Username = ''bob'', Roles = [participantRole]\<rparr>"

text \<open>A participant without roles, and so without join policies: no require policy counts it.\<close>

definition nobody :: SessionAccessContext where
  "nobody = \<lparr>Username = ''nobody'', Roles = []\<rparr>"

subsection \<open>Sample trackers and sessions\<close>

definition staleTracker :: SessionTracker where
  "staleTracker = \<lparr>GetCreated = 0, GetExpires = 10, GetState = SessionStateTerminated\<rparr>"

definition liveTracker :: SessionTracker where
  "liveTracker = \<lparr>GetCreated = 900, GetExpires = 5000, GetState = SessionStateRunning\<rparr>"

definition garbageFirstBackend :: backend where
  "garbageFirstBackend =
     [sessionList \<mapsto> ListItem [''a'', ''b''],
      ''a'' \<mapsto> TrackerItem staleTracker, ''b'' \<mapsto> TrackerItem liveTracker]"

definition garbageLastBackend :: backend where
  "garbageLastBackend =
     [sessionList \<mapsto> ListItem [''b'', ''a''],
      ''a'' \<mapsto> TrackerItem staleTracker, ''b'' \<mapsto> TrackerItem liveTracker]"

definition sampleGetRole :: "string \<Rightarrow> error + Role" where
  "sampleGetRole name =
     (if name = ''host'' then Inr hostRole
      else if name = ''participant'' then Inr participantRole
      else Inl NotFound)"

definition noTrackerError :: "uuid \<Rightarrow> tracker_update \<Rightarrow> error option" where
  "noTrackerError sessionID update = None"


definition sampleEnv :: env where
  "sampleEnv = \<lparr>filterParser = sampleWhereParser, GetRole = sampleGetRole,
     UpdateSessionTracker = noTrackerError, newStreamer = None, NewAuditWriter = None,
     getExecutor = None, executorStream = None\<rparr>"


definition okClient :: remoteClient where
  "okClient = \<lparr>stdoutWrite = None, clientClose = None, sendStatus = None, resize = None\<rparr>"

definition initiatorCtx :: authContext where
  "initiatorCtx = \<lparr>User = ''alice'', Groups = [''host''], Impersonator = [], MFAVerified = []\<rparr>"

definition moderatorCtx :: authContext where
  "moderatorCtx = \<lparr>User = ''bob'', Groups = [''participant''], Impersonator = [],
     MFAVerified = []\<rparr>"

definition initiatorParty :: party where
  "initiatorParty = \<lparr>Ctx = initiatorCtx, ID = ''p1'', Client = okClient, Mode = SessionPeerMode\<rparr>"

definition moderatorParty :: party where
  "moderatorParty = \<lparr>Ctx = moderatorCtx, ID = ''p3'', Client = okClient,
     Mode = SessionModeratorMode\<rparr>"

definition emptyTermManager :: TermManager where
  "emptyTermManager = \<lparr>readers = [], writers = [], messages = [], isOn = True, isClosed = False\<rparr>"

definition secondParty :: party where
  "secondParty = \<lparr>Ctx = initiatorCtx, ID = ''p2'', Client = okClient, Mode = SessionPeerMode\<rparr>"

text \<open>
  A session as \<^verbatim>\<open>newSession\<close> builds it for the user alice, with a terminal: pending, without
  parties, with the discard emitter and an evaluator of kind kubernetes over the host role.
\<close>

definition newKubeSession :: session where
  "newKubeSession = \<lparr>ctx = initiatorCtx, id' = ''s1'', parties = [], partiesHistorical = [],
     io = emptyTermManager\<lparr>messages := [''Creating session with ID: s1...'']\<rparr>,
     terminalSizeQueue = \<lparr>queues = []\<rparr>, state = SessionStatePending,
     stateUpdate = [],
     accessEvaluator = NewSessionAccessEvaluator [hostRole] KubernetesSessionKind,
     recorder = None, emitter = DiscardEmitter, tty = True, podName = [],
     podNameParam = ''pod'', started = False, initiator = ''p1'', expires = 86400,
     closeC = False, closeOnce = False, PresenceEnabled = False, noAuditEvents = False,
     emitted = [], spawned = [], closedParties = [], mu = False\<rparr>"

text \<open>
  A running session, reached from \<open>newKubeSession\<close> in three steps: the initiator joins,
  \<^verbatim>\<open>launch\<close> runs up to the call of the executor, and the same user joins from a second
  terminal, which sets the state to \<open>Running\<close>.
\<close>

definition runningSession :: session where
  "runningSession =
     snd (join sampleEnv
       (snd (launch_begin sampleEnv (snd (join sampleEnv newKubeSession initiatorParty))))
       secondParty)"

text \<open>The running session once \<^verbatim>\<open>Close\<close> has run.\<close>

definition terminatedSession :: session where
  "terminatedSession = Close runningSession"

text \<open>A session value whose roster holds a party of another user, the moderator bob.\<close>

definition moderatedSession :: session where
  "moderatedSession = newKubeSession\<lparr>
     parties := [(''p1'', initiatorParty), (''p3'', moderatorParty)],
     partiesHistorical := [(''p1'', initiatorParty), (''p3'', moderatorParty)]\<rparr>"

section \<open>Properties of the policy evaluator\<close>

lemmas version_defs = V1_def V2_def V3_def V4_def V5_def

lemmas kind_defs = SSHSessionKind_def KubernetesSessionKind_def

lemmas onleave_defs = OnSessionLeaveTerminate_def OnSessionLeavePause_def

lemmas sample_policy_defs = requireOne_def requireZero_def requireTwoNoOnLeave_def
  requireMin_def hostRole_def hostRoleZero_def hostRoleTwoPolicies_def hostRoleMin_def
  legacyRole_def legacyHostRole_def joinHost_def joinAny_def participantRole_def alice_def
  bob_def nobody_def sampleWhereParser_def

lemmas evaluator_defs = FulfilledFor_def NewSessionAccessEvaluator_def
  supportsSessionAccessControls_def FulfilledFor_options_def getAllowPolicies_def
  matchesPredicate_def matchesKind_def matchesJoin_def

subsection \<open>The version gate\<close>

lemma FulfilledFor_unsupported:
  "supportsSessionAccessControls e = Inr False \<Longrightarrow>
   FulfilledFor parser e participants = Inr (True, \<lparr>TerminateOnLeave = False\<rparr>)"
  by (simp add: FulfilledFor_def)

lemma supportsSessionAccessControls_not_ssh:
  "kind e \<noteq> SSHSessionKind \<Longrightarrow> supportsSessionAccessControls e = Inr False"
  by (simp add: supportsSessionAccessControls_def)

lemma supportsSessionAccessControls_kubernetes:
  "supportsSessionAccessControls (NewSessionAccessEvaluator rs KubernetesSessionKind) = Inr False"
  by (simp add: supportsSessionAccessControls_def NewSessionAccessEvaluator_def kind_defs)

lemma FulfilledFor_kubernetes:
  "FulfilledFor parser (NewSessionAccessEvaluator rs KubernetesSessionKind) participants =
     Inr (True, \<lparr>TerminateOnLeave = False\<rparr>)"
  by (rule FulfilledFor_unsupported) (rule supportsSessionAccessControls_kubernetes)

text \<open>
  Claim C1. For an evaluator of kind kubernetes with a non-empty list of require policies,
  \<open>FulfilledFor\<close> is claimed to evaluate the policies and to return \<open>(false, {}, nil)\<close> when
  no policy's count is met. In the code \<open>supportsSessionAccessControls\<close> ends with
  \<^verbatim>\<open>return false, nil\<close> for every kind other than ssh, and \<open>FulfilledFor\<close> then returns
  \<open>(true, {}, nil)\<close> without looking at a policy: with one host role that requires one
  participant and an empty participant list, the result is \<open>true\<close>.
\<close>

theorem FulfilledFor_kubernetes_skips_require_policies:
  "requires (NewSessionAccessEvaluator [hostRole] KubernetesSessionKind) = [requireOne] \<and>
   Count requireOne = 1 \<and>
   FulfilledFor parser (NewSessionAccessEvaluator [hostRole] KubernetesSessionKind) [] =
     Inr (True, \<lparr>TerminateOnLeave = False\<rparr>)"
  by (simp add: FulfilledFor_kubernetes)
     (simp add: NewSessionAccessEvaluator_def hostRole_def requireOne_def)

text \<open>
  Claim C3, as stated: for kind ssh, a legacy role (v1 to v4) at any position of the host
  roles makes \<open>FulfilledFor\<close> return \<open>(true, {}, nil)\<close>. The loop of
  \<open>supportsSessionAccessControls\<close> returns on the first role, so with a v5 role first and a
  v4 role second the require policy of the first role is evaluated, and the empty
  participant list does not fulfil it.
\<close>

theorem FulfilledFor_legacy_role_second_counterexample:
  "list_ex legacyVersion [hostRole, legacyRole] \<and>
   FulfilledFor sampleWhereParser
     (NewSessionAccessEvaluator [hostRole, legacyRole] SSHSessionKind) [] =
     Inr (False, \<lparr>TerminateOnLeave = False\<rparr>)"
  by (simp add: evaluator_defs sample_policy_defs legacyVersion_def version_defs kind_defs)

text \<open>
  Claim C3, amended: for kind ssh, when every host role is of a legacy version (v1 to v4),
  \<open>FulfilledFor\<close> returns \<open>(true, {}, nil)\<close> for every participant list, whatever the require
  policies of the roles are. This is the case that the comment of
  \<open>supportsSessionAccessControls\<close> names: a set that only has v4 or earlier roles.
\<close>

theorem FulfilledFor_all_roles_legacy:
  assumes "kind e = SSHSessionKind"
    and "list_all legacyVersion (roles e)"
  shows "FulfilledFor parser e participants = Inr (True, \<lparr>TerminateOnLeave = False\<rparr>)"
proof -
  have "supportsSessionAccessControls e = Inr False"
    using assms
    by (cases "roles e") (simp_all add: supportsSessionAccessControls_def legacyVersion_def)
  then show ?thesis by (rule FulfilledFor_unsupported)
qed

theorem FulfilledFor_all_roles_legacy_witness:
  "kind (NewSessionAccessEvaluator [legacyHostRole, legacyRole] SSHSessionKind) = SSHSessionKind \<and>
   list_all legacyVersion
     (roles (NewSessionAccessEvaluator [legacyHostRole, legacyRole] SSHSessionKind)) \<and>
   requires (NewSessionAccessEvaluator [legacyHostRole, legacyRole] SSHSessionKind) =
     [requireOne] \<and>
   FulfilledFor sampleWhereParser
     (NewSessionAccessEvaluator [legacyHostRole, legacyRole] SSHSessionKind) [] =
     Inr (True, \<lparr>TerminateOnLeave = False\<rparr>)"
proof -
  let ?e = "NewSessionAccessEvaluator [legacyHostRole, legacyRole] SSHSessionKind"
  have k: "kind ?e = SSHSessionKind"
    by (simp add: NewSessionAccessEvaluator_def)
  have l: "list_all legacyVersion (roles ?e)"
    by (simp add: NewSessionAccessEvaluator_def legacyVersion_def legacyRole_def
        legacyHostRole_def)
  have q: "requires ?e = [requireOne]"
    by (simp add: NewSessionAccessEvaluator_def legacyRole_def legacyHostRole_def)
  show ?thesis
    using FulfilledFor_all_roles_legacy [OF k l, of sampleWhereParser "[]"] k l q by simp
qed

subsection \<open>What the loops of \<open>FulfilledFor\<close> compute\<close>

text \<open>
  The decrement of \<^verbatim>\<open>left\<close> is the decrement of the number it stands for, except at the
  least value, where it wraps around to the greatest.
\<close>

lemma sint_MinInt32: "sint MinInt32 = - 2147483648"
  by (simp add: MinInt32_def)

lemma sint_MinInt32_iff: "sint (x :: 32 word) = - 2147483648 \<longleftrightarrow> x = MinInt32"
proof
  assume "sint x = - 2147483648"
  then have "sint x = sint MinInt32" by (simp add: sint_MinInt32)
  then show "x = MinInt32" by (simp only: signed_word_eqI)
next
  assume "x = MinInt32"
  then show "sint x = - 2147483648" by (simp add: sint_MinInt32)
qed

lemma sint_least: "- 2147483648 \<le> sint (x :: 32 word)"
  using sint_ge[of x] by simp

lemma sint_decrement:
  assumes "(x :: 32 word) \<noteq> MinInt32"
  shows "sint (x - 1) = sint x - 1"
proof -
  have ne: "sint x \<noteq> - 2147483648" using assms by (simp add: sint_MinInt32_iff)
  have lo: "- 2147483648 \<le> sint x" by (rule sint_least)
  have hi: "sint x < 2147483648" using sint_lt[of x] by simp
  have "signed_take_bit 31 (sint x - 1) = sint x - 1"
    by (rule signed_take_bit_int_eq_self) (use ne lo hi in simp_all)
  then show ?thesis by (simp add: sint_word_diff)
qed

lemma sint_decrement_MinInt32: "sint (MinInt32 - 1) = 2147483647"
  by (simp add: MinInt32_def)

text \<open>
  A policy that the loop over the participants finds fulfilled has been given at least one
  participant, and at least \<open>left\<close> counted ones.
\<close>

lemma FulfilledFor_participants_fulfilled:
  "FulfilledFor_participants parser e R left ps = Inr (Some options) \<Longrightarrow>
   ps \<noteq> [] \<and> sint left \<le> int (length (filter (isCounted parser e R) ps))"
proof (induction ps arbitrary: left)
  case Nil
  then show ?case by simp
next
  case (Cons p ps)
  obtain counted where
    c: "FulfilledFor_allow parser e p R (getAllowPolicies p) = Inr counted"
    using Cons.prems by (auto split: sum.splits)
  have ic: "isCounted parser e R p = counted" by (simp add: isCounted_def c)
  show ?case
  proof (cases counted)
    case False
    show ?thesis
    proof (cases "sint left \<le> 0")
      case True
      then show ?thesis using ic False by simp
    next
      case pos: False
      then have "FulfilledFor_participants parser e R left ps = Inr (Some options)"
        using Cons.prems c False by simp
      from Cons.IH[OF this] show ?thesis using ic False by simp
    qed
  next
    case True
    show ?thesis
    proof (cases "left = MinInt32")
      case min: True
      have "sint left \<le> 0" using min by (simp add: sint_MinInt32)
      then show ?thesis using ic True by simp
    next
      case nomin: False
      have dec: "sint (left - 1) = sint left - 1" using nomin by (rule sint_decrement)
      show ?thesis
      proof (cases "sint (left - 1) \<le> 0")
        case True
        then show ?thesis using ic \<open>counted\<close> dec by simp
      next
        case pos: False
        then have "FulfilledFor_participants parser e R (left - 1) ps = Inr (Some options)"
          using Cons.prems c True by simp
        from Cons.IH[OF this] show ?thesis using ic True dec by simp
      qed
    qed
  qed
qed

text \<open>
  A policy that the loop runs through without fulfilling it, and whose count is not the
  least \<^verbatim>\<open>int32\<close>, has been given no participant or fewer than \<open>left\<close> counted ones.
\<close>

lemma FulfilledFor_participants_unfulfilled:
  "FulfilledFor_participants parser e R left ps = Inr None \<Longrightarrow> left \<noteq> MinInt32 \<Longrightarrow>
   ps = [] \<or> int (length (filter (isCounted parser e R) ps)) < sint left"
proof (induction ps arbitrary: left)
  case Nil
  then show ?case by simp
next
  case (Cons p ps)
  obtain counted where
    c: "FulfilledFor_allow parser e p R (getAllowPolicies p) = Inr counted"
    using Cons.prems(1) by (auto split: sum.splits)
  have ic: "isCounted parser e R p = counted" by (simp add: isCounted_def c)
  define left' where "left' = (if counted then left - 1 else left)"
  have val: "sint left' = (if counted then sint left - 1 else sint left)"
    using Cons.prems(2) by (simp add: left'_def sint_decrement)
  have pos: "\<not> sint left' \<le> 0"
    using Cons.prems(1) c by (auto simp: left'_def split: if_splits sum.splits)
  have rec: "FulfilledFor_participants parser e R left' ps = Inr None"
    using Cons.prems(1) c pos by (auto simp: left'_def split: if_splits)
  have "left' \<noteq> MinInt32" using pos by (auto simp: sint_MinInt32)
  from Cons.IH[OF rec this] have "ps = [] \<or>
      int (length (filter (isCounted parser e R) ps)) < sint left'" .
  then show ?case using ic val pos by (auto split: if_splits)
qed

text \<open>
  So a policy fulfilled by a list is not run through unfulfilled by a larger list: the
  loop returns fulfilled or an error.
\<close>

lemma filter_length_mono:
  assumes "mset S \<subseteq># mset S'"
  shows "length (filter P S) \<le> length (filter P S')"
proof -
  have "filter_mset P (mset S) \<subseteq># filter_mset P (mset S')"
    using assms by (rule multiset_filter_mono)
  then have "size (filter_mset P (mset S)) \<le> size (filter_mset P (mset S'))"
    by (rule size_mset_mono)
  then show ?thesis by (simp flip: mset_filter)
qed

lemma FulfilledFor_participants_larger:
  assumes ful: "FulfilledFor_participants parser e R left S = Inr (Some options)"
    and sub: "mset S \<subseteq># mset S'"
    and nomin: "left \<noteq> MinInt32"
  shows "FulfilledFor_participants parser e R left S' \<noteq> Inr None"
proof
  assume none: "FulfilledFor_participants parser e R left S' = Inr None"
  from FulfilledFor_participants_fulfilled[OF ful]
  have ne: "S \<noteq> []" and le: "sint left \<le> int (length (filter (isCounted parser e R) S))"
    by simp_all
  have "set S \<subseteq> set S'"
    using sub by (rule set_mset_mono[of "mset S" "mset S'", simplified])
  then have ne': "S' \<noteq> []" using ne by auto
  have "sint left \<le> int (length (filter (isCounted parser e R) S'))"
    using le filter_length_mono[OF sub, of "isCounted parser e R"] by linarith
  then show False
    using FulfilledFor_participants_unfulfilled[OF none nomin] ne' by simp
qed

lemma FulfilledFor_requires_larger:
  assumes "FulfilledFor_requires parser e Rs S = Inr (True, options)"
    and "mset S \<subseteq># mset S'"
    and "list_all (\<lambda>R. Count R \<noteq> MinInt32) Rs"
  shows "(\<exists>options'. FulfilledFor_requires parser e Rs S' = Inr (True, options')) \<or>
     (\<exists>err. FulfilledFor_requires parser e Rs S' = Inl err)"
  using assms
proof (induction Rs)
  case Nil
  then show ?case by simp
next
  case (Cons R Rs)
  show ?case
  proof (cases "FulfilledFor_participants parser e R (Count R) S'")
    case (Inl err)
    then show ?thesis by simp
  next
    case (Inr r')
    show ?thesis
    proof (cases r')
      case (Some opt')
      then show ?thesis using Inr by simp
    next
      case None
      have "FulfilledFor_participants parser e R (Count R) S = Inr None"
      proof (cases "FulfilledFor_participants parser e R (Count R) S")
        case (Inl err)
        then show ?thesis using Cons.prems(1) by simp
      next
        case inr: (Inr r)
        show ?thesis
        proof (cases r)
          case None
          then show ?thesis using inr by simp
        next
          case (Some opt)
          have "FulfilledFor_participants parser e R (Count R) S' \<noteq> Inr None"
            using FulfilledFor_participants_larger[of parser e R "Count R" S opt S']
              inr Some Cons.prems(2,3) by simp
          then show ?thesis using Inr None by simp
        qed
      qed
      then have "FulfilledFor_requires parser e Rs S = Inr (True, options)"
        using Cons.prems(1) by simp
      from Cons.IH[OF this Cons.prems(2)] show ?thesis
        using Cons.prems(3) Inr None by simp
    qed
  qed
qed

lemma FulfilledFor_requires_no_participants:
  "FulfilledFor_requires parser e Rs [] = Inr (False, \<lparr>TerminateOnLeave = False\<rparr>)"
  by (induction Rs) simp_all

text \<open>
  Claim C4. A require policy with count 0 is claimed to be fulfilled by the empty
  participant list. In the code the test \<^verbatim>\<open>left <= 0\<close> stands inside the loop over the
  participants, so with no participant it is never reached: for an evaluator of kind ssh
  with a v5 host role whose one require policy has count 0, \<open>FulfilledFor\<close> on the empty
  list falls through to \<open>(false, {}, nil)\<close>. The same policy is fulfilled as soon as the list
  holds one participant, even one that no policy counts.
\<close>

theorem FulfilledFor_count_zero_empty_list_unfulfilled:
  "Count requireZero = 0 \<and>
   requires (NewSessionAccessEvaluator [hostRoleZero] SSHSessionKind) = [requireZero] \<and>
   supportsSessionAccessControls (NewSessionAccessEvaluator [hostRoleZero] SSHSessionKind) =
     Inr True \<and>
   FulfilledFor sampleWhereParser (NewSessionAccessEvaluator [hostRoleZero] SSHSessionKind) [] =
     Inr (False, \<lparr>TerminateOnLeave = False\<rparr>) \<and>
   isCounted sampleWhereParser (NewSessionAccessEvaluator [hostRoleZero] SSHSessionKind)
     requireZero nobody = False \<and>
   FulfilledFor sampleWhereParser (NewSessionAccessEvaluator [hostRoleZero] SSHSessionKind)
     [nobody] = Inr (True, \<lparr>TerminateOnLeave = True\<rparr>)"
  by (simp add: evaluator_defs sample_policy_defs version_defs kind_defs isCounted_def)

subsection \<open>Monotonicity\<close>

text \<open>
  Claim C8, as stated: if \<open>FulfilledFor\<close> returns true for a participant list, it returns
  true for every list that contains those participants. Two runs show otherwise. In the
  first the host role has two require policies, the first with count 2 and no on-leave
  action, the second with count 1. One participant fulfils the second policy. With a second
  participant the first policy is fulfilled first, and its on-leave action is rejected as
  unsupported: the result is an error, not true. In the second run the one require policy
  has the least \<^verbatim>\<open>int32\<close> as its count. A participant that is not counted fulfils it, since
  \<^verbatim>\<open>left <= 0\<close> holds. With a counted participant in front, \<^verbatim>\<open>left--\<close> wraps around to the
  greatest \<^verbatim>\<open>int32\<close>, the test fails for both participants, and the result is false.
\<close>

theorem FulfilledFor_monotone_counterexample:
  "mset [alice] \<subseteq># mset [alice, bob] \<and>
   FulfilledFor sampleWhereParser
     (NewSessionAccessEvaluator [hostRoleTwoPolicies] SSHSessionKind) [alice] =
     Inr (True, \<lparr>TerminateOnLeave = True\<rparr>) \<and>
   FulfilledFor sampleWhereParser
     (NewSessionAccessEvaluator [hostRoleTwoPolicies] SSHSessionKind) [alice, bob] =
     Inl BadParameter \<and>
   mset [nobody] \<subseteq># mset [alice, nobody] \<and>
   sint (Count requireMin) = - 2147483648 \<and>
   FulfilledFor sampleWhereParser
     (NewSessionAccessEvaluator [hostRoleMin] SSHSessionKind) [nobody] =
     Inr (True, \<lparr>TerminateOnLeave = True\<rparr>) \<and>
   FulfilledFor sampleWhereParser
     (NewSessionAccessEvaluator [hostRoleMin] SSHSessionKind) [alice, nobody] =
     Inr (False, \<lparr>TerminateOnLeave = False\<rparr>)"
  by (simp add: evaluator_defs sample_policy_defs version_defs kind_defs onleave_defs
      MinInt32_def)

text \<open>
  Claim C8, amended: when no require policy of the evaluator has the least \<^verbatim>\<open>int32\<close> as its
  count, and \<open>FulfilledFor\<close> returns true for a list \<open>S\<close>, then for every list \<open>S'\<close> that
  contains the participants of \<open>S\<close> (with their multiplicities, in any order) it returns
  true or an error, and never false. The options returned may be those of another policy.
\<close>

theorem FulfilledFor_monotone:
  assumes ful: "FulfilledFor parser e S = Inr (True, options)"
    and sub: "mset S \<subseteq># mset S'"
    and nomin: "list_all (\<lambda>R. Count R \<noteq> MinInt32) (requires e)"
  shows "(\<exists>options'. FulfilledFor parser e S' = Inr (True, options')) \<or>
     (\<exists>err. FulfilledFor parser e S' = Inl err)"
proof -
  obtain supported where sup: "supportsSessionAccessControls e = Inr supported"
    using ful by (auto simp: FulfilledFor_def split: sum.splits)
  show ?thesis
  proof (cases "length (requires e) = 0 \<or> \<not> supported")
    case True
    then show ?thesis by (auto simp: FulfilledFor_def sup)
  next
    case False
    then have req: "FulfilledFor_requires parser e (requires e) S = Inr (True, options)"
      using ful by (simp add: FulfilledFor_def sup)
    have "(\<exists>options'. FulfilledFor_requires parser e (requires e) S' = Inr (True, options')) \<or>
       (\<exists>err. FulfilledFor_requires parser e (requires e) S' = Inl err)"
      using req sub nomin by (rule FulfilledFor_requires_larger)
    then show ?thesis using False by (simp add: FulfilledFor_def sup)
  qed
qed

theorem FulfilledFor_monotone_witness:
  "FulfilledFor sampleWhereParser (NewSessionAccessEvaluator [hostRole] SSHSessionKind) [alice] =
     Inr (True, \<lparr>TerminateOnLeave = True\<rparr>) \<and>
   mset [alice] \<subseteq># mset [bob, alice] \<and>
   list_all (\<lambda>R. Count R \<noteq> MinInt32)
     (requires (NewSessionAccessEvaluator [hostRole] SSHSessionKind)) \<and>
   FulfilledFor sampleWhereParser (NewSessionAccessEvaluator [hostRole] SSHSessionKind)
     [bob, alice] = Inr (True, \<lparr>TerminateOnLeave = True\<rparr>)"
proof -
  let ?e = "NewSessionAccessEvaluator [hostRole] SSHSessionKind"
  have ful: "FulfilledFor sampleWhereParser ?e [alice] = Inr (True, \<lparr>TerminateOnLeave = True\<rparr>)"
    by (simp add: evaluator_defs sample_policy_defs version_defs kind_defs onleave_defs)
  have sub: "mset [alice] \<subseteq># mset [bob, alice]" by simp
  have nomin: "list_all (\<lambda>R. Count R \<noteq> MinInt32) (requires ?e)"
    by (simp add: evaluator_defs sample_policy_defs MinInt32_def)
  have res: "FulfilledFor sampleWhereParser ?e [bob, alice] =
      Inr (True, \<lparr>TerminateOnLeave = True\<rparr>)"
    by (simp add: evaluator_defs sample_policy_defs version_defs kind_defs onleave_defs)
  show ?thesis
    using FulfilledFor_monotone [OF ful sub nomin] ful sub nomin res by simp
qed

subsection \<open>Role matching of a join policy\<close>

lemma matchesJoin_inner_iff:
  "matchesJoin_inner r as \<longleftrightarrow> (\<exists>a\<in>set as. globMatch (GetName r) a)"
  by (induction as) auto

lemma matchesJoin_outer_iff:
  "matchesJoin_outer rs as \<longleftrightarrow> (\<exists>r\<in>set rs. \<exists>a\<in>set as. globMatch (GetName r) a)"
  by (induction rs) (auto simp: matchesJoin_inner_iff)

text \<open>
  What \<open>matchesJoin\<close> computes: the kinds match, and the name of some host role, taken as
  the pattern, matches some entry of the policy's roles.
\<close>

lemma matchesJoin_iff:
  "matchesJoin e allow \<longleftrightarrow>
     matchesKind e (JoinKinds allow) \<and>
     (\<exists>r\<in>set (roles e). \<exists>a\<in>set (JoinRoles allow). globMatch (GetName r) a)"
  by (simp add: matchesJoin_def matchesJoin_outer_iff)

text \<open>
  Claim C2. A join policy is claimed to match on roles exactly when one of its role
  entries, as a glob pattern, matches the name of a host role. \<open>matchesJoin\<close> builds the
  pattern from the host role's name and matches it against the policy's entry, so the
  two are swapped: the policy with the single role entry \<^verbatim>\<open>*\<close> and matching kinds
  satisfies the specification's condition for the host role named \<^verbatim>\<open>host\<close>, and
  \<open>matchesJoin\<close> rejects it.
\<close>

theorem matchesJoin_rejects_wildcard_entry:
  "matchesKind (NewSessionAccessEvaluator [hostRole] SSHSessionKind) (JoinKinds joinAny) \<and>
   specMatchesRoles joinAny (roles (NewSessionAccessEvaluator [hostRole] SSHSessionKind)) \<and>
   matchesJoin (NewSessionAccessEvaluator [hostRole] SSHSessionKind) joinAny = False"
  by (simp add: evaluator_defs sample_policy_defs specMatchesRoles_def)

section \<open>Properties of the tracker list\<close>

declare removeSessionFromList.simps [simp del]

text \<open>Without a concurrent writer the swap succeeds, and the function is its first pass.\<close>

lemma removeSessionFromList_unfold:
  "removeSessionFromList now bk sessionID =
     (case bk sessionList of
        None \<Rightarrow> Inl NotFound
      | Some (TrackerItem session) \<Rightarrow> Inl OtherError
      | Some (ListItem ids) \<Rightarrow>
          (case removeSessionFromList_loop now bk sessionID [] ids of
             Inl err \<Rightarrow> Inl err
           | Inr None \<Rightarrow> Inl NotFound
           | Inr (Some ids') \<Rightarrow> Inr (bk(sessionList \<mapsto> ListItem ids'))))"
  by (subst removeSessionFromList.simps)
     (simp add: CompareAndSwap_def split: option.splits item.splits sum.splits)

text \<open>The loop drops exactly one entry of the list whenever it finds something to drop.\<close>

lemma removeSessionFromList_loop_removes_one:
  "removeSessionFromList_loop now bk sessionID pre ids = Inr (Some ids') \<Longrightarrow>
   length ids' + 1 = length pre + length ids"
  by (induction ids arbitrary: pre) (fastforce simp: Let_def split: sum.splits if_splits)+

lemmas tracker_sample_defs = staleTracker_def liveTracker_def garbageFirstBackend_def
  garbageLastBackend_def sessionList_def gcDelay_def

text \<open>
  Claim C9. \<^verbatim>\<open>Remove(id)\<close> is claimed to make a full pass over the list and to drop the
  requested id together with every garbage entry. The loop of \<^verbatim>\<open>removeSessionFromList\<close>
  leaves with \<^verbatim>\<open>break\<close> at the first entry that is the requested id or garbage. At time
  1000 the tracker \<^verbatim>\<open>a\<close> is garbage on both counts (terminated and created at 0; expired at
  10) and \<^verbatim>\<open>b\<close> is the requested id. With the list \<^verbatim>\<open>[a, b]\<close> only \<^verbatim>\<open>a\<close> leaves the list: the
  requested id stays listed while its record is deleted. With the list \<^verbatim>\<open>[b, a]\<close> only \<^verbatim>\<open>b\<close>
  leaves the list and the garbage entry stays. A full pass would leave the empty list in
  both cases.
\<close>

theorem RemoveSessionTracker_stops_at_first_match:
  "specRemoveFullPass 1000 garbageFirstBackend ''b'' [''a'', ''b''] = [] \<and>
   (\<exists>bk. RemoveSessionTracker 1000 garbageFirstBackend ''b'' = Inr bk \<and>
      bk sessionList = Some (ListItem [''b'']) \<and> bk ''b'' = None \<and>
      bk ''a'' = Some (TrackerItem staleTracker)) \<and>
   specRemoveFullPass 1000 garbageLastBackend ''b'' [''b'', ''a''] = [] \<and>
   (\<exists>bk. RemoveSessionTracker 1000 garbageLastBackend ''b'' = Inr bk \<and>
      bk sessionList = Some (ListItem [''a'']) \<and> bk ''b'' = None \<and>
      bk ''a'' = Some (TrackerItem staleTracker))"
  by (simp add: RemoveSessionTracker_def removeSessionFromList_unfold loadSession_def
      Delete_def specRemoveFullPass_def isGarbage_def tracker_sample_defs)

section \<open>Properties of the live session\<close>

lemmas session_party_defs = sampleGetRole_def noTrackerError_def sampleEnv_def okClient_def
  initiatorCtx_def moderatorCtx_def initiatorParty_def moderatorParty_def secondParty_def
  emptyTermManager_def

lemmas session_op_defs = join_def join_access_def join_register_def join_start_def leave_def
  canStart_def getRolesByName_def trackerAddParticipant_def trackerRemoveParticipant_def
  trackerUpdateState_def EmitAuditEvent_def broadcast_def spawn_def partyClose_def
  AddReader_def AddWriter_def DeleteReader_def DeleteWriter_def BroadcastMessage_def
  addQueue_def removeQueue_def

lemma CanJoin_kubernetes:
  "CanJoin (NewSessionAccessEvaluator rs KubernetesSessionKind) user = Inr []"
  by (simp add: CanJoin_def supportsSessionAccessControls_kubernetes preAccessControlsModes_def)
     (simp add: NewSessionAccessEvaluator_def kind_defs)

lemma canStart_kubernetes:
  "accessEvaluator s = NewSessionAccessEvaluator rs KubernetesSessionKind \<Longrightarrow>
   canStart_loop E s [] (parties s) = Inr participants \<Longrightarrow>
   canStart E s = Inr (True, \<lparr>TerminateOnLeave = False\<rparr>)"
  by (simp add: canStart_def FulfilledFor_kubernetes)

text \<open>The running session, field by field.\<close>

lemma runningSession_eq:
  "runningSession = newKubeSession\<lparr>
     parties := [(''p1'', initiatorParty), (''p2'', secondParty)],
     partiesHistorical := [(''p1'', initiatorParty), (''p2'', secondParty)],
     io := \<lparr>readers = [''p1'', ''p2''], writers = [''p1'', ''recorder'', ''p2''],
       messages = [''Creating session with ID: s1...'', ''User alice joined the session.'',
         ''Launching session...'', ''User alice joined the session.''],
       isOn = True, isClosed = False\<rparr>,
     terminalSizeQueue := \<lparr>queues = [''p1'', ''p2'']\<rparr>,
     state := SessionStateRunning,
     stateUpdate := [SessionStateRunning],
     recorder := Some False, emitter := RecorderEmitter, podName := ''pod'', started := True,
     emitted :=
       [(DiscardEmitter, \<lparr>Struct = apievents_SessionJoin, Type = SessionJoinEvent,
           Code = SessionJoinCode, SessionID = ''s1'', UserName = ''alice'', Login = ''root'',
           Participants = []\<rparr>),
        (RecorderEmitter, \<lparr>Struct = apievents_SessionStart, Type = SessionStartEvent,
           Code = SessionStartCode, SessionID = ''s1'', UserName = ''alice'', Login = ''alice'',
           Participants = []\<rparr>),
        (RecorderEmitter, \<lparr>Struct = apievents_SessionJoin, Type = SessionJoinEvent,
           Code = SessionJoinCode, SessionID = ''s1'', UserName = ''alice'', Login = ''root'',
           Participants = []\<rparr>)],
     spawned := [ForceTerminateWatcher ''p1'', LaunchTask, ExpiryWatcher,
       ForceTerminateWatcher ''p2'']\<rparr>"
  by (simp add: runningSession_def newKubeSession_def session_op_defs session_party_defs
      launch_begin_def launch_event_def FulfilledFor_kubernetes Let_def
      SessionPeerMode_def SessionObserverMode_def)

subsection \<open>A rejected join\<close>













subsection \<open>The audit event of \<^verbatim>\<open>leave\<close>\<close>

text \<open>
  For a session that is not terminated and a live party, \<^verbatim>\<open>leave\<close> hands exactly one event
  to the emitter, whatever happens afterwards.
\<close>

lemma leave_emits:
  assumes "state s \<noteq> SessionStateTerminated" and "map_of (parties s) k = Some party"
  shows "emitted (snd (leave E s k)) = emitted s @
     [(emitter s, \<lparr>Struct = apievents_SessionLeave, Type = SessionJoinEvent,
         Code = SessionJoinCode, SessionID = id' s, UserName = User (Ctx party),
         Login = ''root'', Participants = []\<rparr>)]"
  using assms
  by (simp add: leave_def Let_def EmitAuditEvent_def broadcast_def spawn_def partyClose_def
      split: option.splits sum.splits prod.splits)

text \<open>
  Claim C6. \<^verbatim>\<open>leave\<close> is claimed to emit an audit event whose type identifies it as
  SessionLeave, after the party has been removed and deregistered and its leaving has been
  broadcast. When the second party leaves the running session, it is removed from the
  roster, from the readers, the writers and the resize queues, the message is broadcast
  and one more event with the session id and the user is handed to the recorder; but the
  type and the code of that event are those of a join (\<^verbatim>\<open>events.SessionJoinEvent\<close>,
  \<^verbatim>\<open>events.SessionJoinCode\<close>).
\<close>

theorem leave_event_carries_join_type:
  "state runningSession \<noteq> SessionStateTerminated \<and>
   map_of (parties runningSession) ''p2'' = Some secondParty \<and>
   fst (leave sampleEnv runningSession ''p2'') = None \<and>
   parties (snd (leave sampleEnv runningSession ''p2'')) = [(''p1'', initiatorParty)] \<and>
   readers (io (snd (leave sampleEnv runningSession ''p2''))) = [''p1''] \<and>
   writers (io (snd (leave sampleEnv runningSession ''p2''))) = [''p1'', ''recorder''] \<and>
   queues (terminalSizeQueue (snd (leave sampleEnv runningSession ''p2''))) = [''p1''] \<and>
   last (messages (io (snd (leave sampleEnv runningSession ''p2'')))) =
     ''User alice left the session.'' \<and>
   emitted (snd (leave sampleEnv runningSession ''p2'')) = emitted runningSession @
     [(RecorderEmitter, \<lparr>Struct = apievents_SessionLeave, Type = SessionJoinEvent,
         Code = SessionJoinCode, SessionID = ''s1'', UserName = ''alice'',
         Login = ''root'', Participants = []\<rparr>)] \<and>
   Type (snd (last (emitted (snd (leave sampleEnv runningSession ''p2''))))) \<noteq> SessionLeaveEvent"
  by (simp add: runningSession_eq newKubeSession_def session_op_defs session_party_defs
      FulfilledFor_kubernetes Let_def SessionPeerMode_def SessionObserverMode_def)

subsection \<open>The terminated state is final\<close>

lemma state_join_register: "state (snd (join_register E s p)) = state s"
  by (simp add: join_register_def Let_def EmitAuditEvent_def broadcast_def spawn_def
      split: option.splits)

lemma join_start_not_pending:
  "state s \<noteq> SessionStatePending \<Longrightarrow> join_start E s = (None, s)"
  by (simp add: join_start_def)

lemma state_join_terminated:
  assumes "state s = SessionStateTerminated"
  shows "state (snd (join E s p)) = SessionStateTerminated"
proof (cases "join_access E s p")
  case (Some err)
  then show ?thesis using assms by (simp add: join_def)
next
  case None
  obtain r s' where reg: "join_register E s p = (r, s')" by (cases "join_register E s p")
  have st: "state s' = SessionStateTerminated"
    using state_join_register[of E s p] reg assms by simp
  show ?thesis
  proof (cases r)
    case (Some err)
    then show ?thesis using None reg st by (simp add: join_def)
  next
    case None2: None
    have "join_start E s' = (None, s')" using st by (simp add: join_start_not_pending)
    then show ?thesis using None None2 reg st by (simp add: join_def)
  qed
qed

lemma state_partyClose: "state (snd (partyClose p s)) = state s"
  by (simp add: partyClose_def)

lemma closeOnce_partyClose: "closeOnce (snd (partyClose p s)) = closeOnce s"
  by (simp add: partyClose_def)

lemma state_Close_parties: "state (Close_parties ps s) = state s"
  by (induction ps s rule: Close_parties.induct) (simp_all add: state_partyClose)

lemma closeOnce_Close_parties: "closeOnce (Close_parties ps s) = closeOnce s"
  by (induction ps s rule: Close_parties.induct) (simp_all add: closeOnce_partyClose)

lemma state_Close_fresh: "\<not> closeOnce s \<Longrightarrow> state (Close s) = SessionStateTerminated"
  by (simp add: Close_def Let_def broadcast_def state_Close_parties split: option.splits)

lemma closeOnce_Close: "closeOnce (Close s)"
  by (simp add: Close_def Let_def broadcast_def closeOnce_Close_parties split: option.splits)

lemma Close_idempotent: "Close (Close s) = Close s"
  using closeOnce_Close[of s] by (subst Close_def) simp

lemma state_Close_terminated:
  "state s = SessionStateTerminated \<Longrightarrow> state (Close s) = SessionStateTerminated"
  by (cases "closeOnce s") (simp_all add: state_Close_fresh, simp add: Close_def)

lemma state_launch_events: "state (launch_events err s) = state s"
  by (simp add: launch_events_def EmitAuditEvent_def)

lemma state_launch_begin: "state (snd (launch_begin E s)) = state s"
  by (simp add: launch_begin_def Let_def EmitAuditEvent_def broadcast_def spawn_def
      split: option.splits prod.splits)

lemma state_launch_body: "state (snd (launch_body E s)) = state s"
  using state_launch_begin[of E s]
  by (cases "launch_begin E s")
     (simp add: launch_body_def state_launch_events split: option.splits)

lemma state_launch_terminated:
  "state s = SessionStateTerminated \<Longrightarrow> state (snd (launch E s)) = SessionStateTerminated"
  using state_launch_body[of E s]
  by (cases "launch_body E s") (simp add: launch_def state_Close_terminated)

lemma leave_terminated: "state s = SessionStateTerminated \<Longrightarrow> leave E s k = (None, s)"
  by (simp add: leave_def)

text \<open>
  Claim C7. Once the state of a session is \<open>Terminated\<close>, every later \<^verbatim>\<open>join\<close>, \<^verbatim>\<open>leave\<close>,
  \<^verbatim>\<open>launch\<close> or \<^verbatim>\<open>Close\<close> leaves it \<open>Terminated\<close>: \<^verbatim>\<open>leave\<close> returns at once without a change,
  and the body of \<^verbatim>\<open>Close\<close> runs at most once, so that closing a closed session changes
  nothing.
\<close>

theorem terminated_is_final:
  assumes "state s = SessionStateTerminated"
  shows "state (snd (join E s p)) = SessionStateTerminated \<and>
    leave E s k = (None, s) \<and>
    state (snd (launch E s)) = SessionStateTerminated \<and>
    state (Close s) = SessionStateTerminated \<and>
    Close (Close s) = Close s"
  using assms
  by (simp add: state_join_terminated leave_terminated state_launch_terminated
      state_Close_terminated Close_idempotent)

theorem terminated_is_final_witness:
  "state terminatedSession = SessionStateTerminated \<and>
   state (snd (join sampleEnv terminatedSession secondParty)) = SessionStateTerminated \<and>
   leave sampleEnv terminatedSession ''p2'' = (None, terminatedSession) \<and>
   state (snd (launch sampleEnv terminatedSession)) = SessionStateTerminated \<and>
   state (Close terminatedSession) = SessionStateTerminated \<and>
   Close (Close terminatedSession) = Close terminatedSession"
proof -
  have "\<not> closeOnce runningSession"
    by (simp add: runningSession_eq newKubeSession_def)
  then have t: "state terminatedSession = SessionStateTerminated"
    unfolding terminatedSession_def by (rule state_Close_fresh)
  show ?thesis
    using terminated_is_final [OF t, of sampleEnv secondParty "''p2''"] t by simp
qed

subsection \<open>The participants that \<^verbatim>\<open>canStart\<close> hands to the evaluator\<close>

lemma canStart_loop_char:
  "canStart_loop E s acc ps = Inr participants \<Longrightarrow>
   \<exists>new. participants = acc @ new \<and>
     list_all (\<lambda>c. Username c = []) new \<and>
     map (\<lambda>c. Inr (Roles c)) new =
       map (\<lambda>(k, p). getRolesByName E (Groups (Ctx p)))
         (filter (\<lambda>(k, p). User (Ctx p) \<noteq> User (ctx s)) ps)"
proof (induction ps arbitrary: acc)
  case Nil
  then show ?case by simp
next
  case (Cons kp ps)
  obtain k p where kp: "kp = (k, p)" by (cases kp)
  show ?case
  proof (cases "User (Ctx p) = User (ctx s)")
    case True
    then show ?thesis using Cons kp by simp
  next
    case False
    then obtain rs where rs: "getRolesByName E (Groups (Ctx p)) = Inr rs"
      and rec: "canStart_loop E s (acc @ [\<lparr>Username = [], Roles = rs\<rparr>]) ps = Inr participants"
      using Cons.prems kp by (auto split: sum.splits)
    from Cons.IH[OF rec] obtain new where
      new: "participants = (acc @ [\<lparr>Username = [], Roles = rs\<rparr>]) @ new"
      "list_all (\<lambda>c. Username c = []) new"
      "map (\<lambda>c. Inr (Roles c)) new =
       map (\<lambda>(k, p). getRolesByName E (Groups (Ctx p)))
         (filter (\<lambda>(k, p). User (Ctx p) \<noteq> User (ctx s)) ps)"
      by blast
    show ?thesis
      by (rule exI[of _ "\<lparr>Username = [], Roles = rs\<rparr> # new"]) (use new False kp rs in simp)
  qed
qed

text \<open>
  Claim C10. Whenever \<^verbatim>\<open>canStart\<close> gets as far as calling the evaluator, the list it passes
  to \<open>FulfilledFor\<close> holds one context per party whose user is not the user of the session,
  in the order of the roster, with the roles looked up for that party and with an empty
  \<^verbatim>\<open>Username\<close>; so \<^verbatim>\<open>participant.name\<close> resolves to the empty string for each of them, not
  to the user name of the party.
\<close>

theorem canStart_passes_empty_username:
  assumes "canStart_loop E s [] (parties s) = Inr participants"
  shows "canStart E s = FulfilledFor (filterParser E) (accessEvaluator s) participants \<and>
    map (\<lambda>c. Inr (Roles c)) participants =
      map (\<lambda>(k, p). getRolesByName E (Groups (Ctx p)))
        (filter (\<lambda>(k, p). User (Ctx p) \<noteq> User (ctx s)) (parties s)) \<and>
    list_all (\<lambda>c. Username c = [] \<and>
      GetIdentifier c [''participant'', ''name''] = Inr (IdString [])) participants"
proof -
  from canStart_loop_char[OF assms] have
    a: "list_all (\<lambda>c. Username c = []) participants" and
    b: "map (\<lambda>c. Inr (Roles c)) participants =
      map (\<lambda>(k, p). getRolesByName E (Groups (Ctx p)))
        (filter (\<lambda>(k, p). User (Ctx p) \<noteq> User (ctx s)) (parties s))"
    by auto
  have c: "list_all (\<lambda>c. Username c = [] \<and>
      GetIdentifier c [''participant'', ''name''] = Inr (IdString [])) participants"
    using a by (simp add: list_all_iff)
  show ?thesis using assms b c by (simp add: canStart_def)
qed

theorem canStart_passes_empty_username_witness:
  "canStart_loop sampleEnv moderatedSession [] (parties moderatedSession) =
     Inr [\<lparr>Username = [], Roles = [participantRole]\<rparr>] \<and>
   map_of (parties moderatedSession) ''p3'' = Some moderatorParty \<and>
   User (Ctx moderatorParty) = ''bob'' \<and>
   canStart sampleEnv moderatedSession =
     FulfilledFor (filterParser sampleEnv) (accessEvaluator moderatedSession)
       [\<lparr>Username = [], Roles = [participantRole]\<rparr>] \<and>
   list_all (\<lambda>c. Username c = [] \<and>
      GetIdentifier c [''participant'', ''name''] = Inr (IdString []))
     [\<lparr>Username = [], Roles = [participantRole]\<rparr>]"
proof -
  have a: "canStart_loop sampleEnv moderatedSession [] (parties moderatedSession) =
     Inr [\<lparr>Username = [], Roles = [participantRole]\<rparr>]"
    by (simp add: moderatedSession_def newKubeSession_def session_party_defs getRolesByName_def)
  have b: "map_of (parties moderatedSession) ''p3'' = Some moderatorParty"
    by (simp add: moderatedSession_def)
  have c: "User (Ctx moderatorParty) = ''bob''" by (simp add: session_party_defs)
  show ?thesis using canStart_passes_empty_username [OF a] a b c by simp
qed

end
